theory Spec2Isabelle
  imports Main
begin

section \<open>Configuration (config\_template.py)\<close>

text \<open>
  The constants of \<^verbatim>\<open>config_template.py\<close> that the orchestrator, the filter agent and
  the memory manager read. They are kept in a record so that results can be stated for
  every configuration and then read off at the shipped one.
\<close>

record config =
  MEMORY_ENABLED :: bool
  MEMORY_DURATION_HOURS :: int
  MAX_CONVERSATION_HISTORY :: int
  FILTER_MAX_RETRIES :: int
  FILTER_REQUIRE_USER_CONSENT :: bool

definition config_template :: config where
  "config_template =
     \<lparr> MEMORY_ENABLED = True,
       MEMORY_DURATION_HOURS = 12,
       MAX_CONVERSATION_HISTORY = 5,
       FILTER_MAX_RETRIES = 3,
       FILTER_REQUIRE_USER_CONSENT = True \<rparr>"

section \<open>Python values\<close>

text \<open>
  Truthiness of an optional string, as Python's \<^verbatim>\<open>if x:\<close> and \<^verbatim>\<open>not x\<close> see it:
  \<^verbatim>\<open>None\<close> and the empty string are false.
\<close>

fun truthy_str :: "string option \<Rightarrow> bool" where
  "truthy_str None = False"
| "truthy_str (Some s) = (s \<noteq> [])"

text \<open>
  The slice \<^verbatim>\<open>xs[-n:]\<close>. For positive \<open>n\<close> it is the last \<open>n\<close> elements (all of them when
  the list is shorter); \<^verbatim>\<open>xs[-0:]\<close> is \<^verbatim>\<open>xs[0:]\<close>, the whole list; for negative \<open>n\<close> the
  start index \<open>-n\<close> is positive and counts from the front.
\<close>

definition py_slice_from_neg :: "int \<Rightarrow> 'a list \<Rightarrow> 'a list" where
  "py_slice_from_neg n xs =
     (if 0 < n then drop (length xs - nat n) xs
      else if n = 0 then xs
      else drop (nat (- n)) xs)"

section \<open>Session memory (memory\_manager.py)\<close>

text \<open>
  The table \<^verbatim>\<open>session_memory\<close> is a list of rows. Instants are integers (microseconds
  of UTC time): the source stores \<^verbatim>\<open>datetime.utcnow().isoformat()\<close> as text and compares
  the texts, and these texts are ordered as their instants are (the fields have fixed
  width, and a text without a fraction is a prefix of the later texts of its second). The
  JSON text of \<^verbatim>\<open>conversation_history\<close> is modelled by the list it encodes, and the
  column \<^verbatim>\<open>created_at\<close>, which SQLite fills in, by the instant of the insert.
\<close>

record history_entry =
  timestamp :: int
  action :: string
  patient_id :: "string option"
  clinician_id :: "string option"

record session_row =
  session_id :: string
  row_clinician_id :: "string option"
  last_patient_id :: "string option"
  last_action :: "string option"
  conversation_history :: "history_entry list"
  created_at :: int
  expires_at :: int

type_synonym session_memory = "session_row list"

text \<open>SQL \<^verbatim>\<open>COALESCE(?, column)\<close>: the bound parameter unless it is NULL.\<close>

fun COALESCE :: "'a option \<Rightarrow> 'a option \<Rightarrow> 'a option" where
  "COALESCE (Some x) old = Some x"
| "COALESCE None old = old"

definition microseconds_per_hour :: int where
  "microseconds_per_hour = 3600000000"

text \<open>
  Every operation runs inside \<^verbatim>\<open>try: ... except Exception\<close>. The flag \<open>raises\<close> says
  whether the storage layer raises during the call; the fault is taken to strike before a
  row is changed, so the table is then returned as it was. \<^verbatim>\<open>remember\<close> reads the clock
  once for the expiry and once more for the history entry; both reads are the one instant
  \<open>now\<close> here.
\<close>

definition remember ::
  "config \<Rightarrow> bool \<Rightarrow> int \<Rightarrow> string \<Rightarrow> string option \<Rightarrow> string option \<Rightarrow> string option \<Rightarrow>
   session_memory \<Rightarrow> bool \<times> session_memory" where
  "remember cfg raises now sid patient clinician act tbl =
     (if raises then (False, tbl)
      else
        let expires = now + MEMORY_DURATION_HOURS cfg * microseconds_per_hour;
            entry = \<lparr> timestamp = now, action = (case act of Some a \<Rightarrow> a | None \<Rightarrow> []),
                      patient_id = patient, clinician_id = clinician \<rparr>
        in case find (\<lambda>r. session_id r = sid) tbl of
             Some existing \<Rightarrow>
               let h0 = conversation_history existing;
                   h1 = (if truthy_str act
                         then (let h = h0 @ [entry]
                               in if int (length h) > MAX_CONVERSATION_HISTORY cfg
                                  then py_slice_from_neg (MAX_CONVERSATION_HISTORY cfg) h
                                  else h)
                         else h0)
               in (True,
                   map (\<lambda>r. if session_id r = sid
                             then r\<lparr> row_clinician_id := COALESCE clinician (row_clinician_id r),
                                    last_patient_id := COALESCE patient (last_patient_id r),
                                    last_action := COALESCE act (last_action r),
                                    conversation_history := h1,
                                    expires_at := expires \<rparr>
                             else r) tbl)
           | None \<Rightarrow>
               (True,
                tbl @ [\<lparr> session_id = sid,
                         row_clinician_id = clinician,
                         last_patient_id = patient,
                         last_action = act,
                         conversation_history = (if truthy_str act then [entry] else []),
                         created_at = now,
                         expires_at = expires \<rparr>]))"

definition recall ::
  "bool \<Rightarrow> int \<Rightarrow> string \<Rightarrow> session_memory \<Rightarrow> session_row option \<times> session_memory" where
  "recall raises now sid tbl =
     (if raises then (None, tbl)
      else (find (\<lambda>r. session_id r = sid \<and> expires_at r > now) tbl, tbl))"

definition forget :: "bool \<Rightarrow> string \<Rightarrow> session_memory \<Rightarrow> bool \<times> session_memory" where
  "forget raises sid tbl =
     (if raises then (False, tbl)
      else (True, filter (\<lambda>r. session_id r \<noteq> sid) tbl))"

definition cleanup_expired_sessions ::
  "bool \<Rightarrow> int \<Rightarrow> session_memory \<Rightarrow> int \<times> session_memory" where
  "cleanup_expired_sessions raises now tbl =
     (if raises then (0, tbl)
      else (int (length (filter (\<lambda>r. expires_at r < now) tbl)),
            filter (\<lambda>r. \<not> expires_at r < now) tbl))"

text \<open>The history stored for a session id; empty when there is no row.\<close>

definition stored_history :: "string \<Rightarrow> session_memory \<Rightarrow> history_entry list" where
  "stored_history sid tbl =
     (case find (\<lambda>r. session_id r = sid) tbl of
        None \<Rightarrow> []
      | Some r \<Rightarrow> conversation_history r)"


text \<open>
  A run of history-appending \<^verbatim>\<open>remember\<close> calls on one session: each call carries a
  non-empty action, the instant of the call and the two optional identifiers.
\<close>

record remember_call =
  call_now :: int
  call_patient :: "string option"
  call_clinician :: "string option"
  call_action :: string

definition entry_of_call :: "remember_call \<Rightarrow> history_entry" where
  "entry_of_call c =
     \<lparr> timestamp = call_now c, action = call_action c,
       patient_id = call_patient c, clinician_id = call_clinician c \<rparr>"

fun remember_all ::
  "config \<Rightarrow> string \<Rightarrow> remember_call list \<Rightarrow> session_memory \<Rightarrow> session_memory" where
  "remember_all cfg sid [] tbl = tbl"
| "remember_all cfg sid (c # cs) tbl =
     remember_all cfg sid cs
       (snd (remember cfg False (call_now c) sid (call_patient c) (call_clinician c)
               (Some (call_action c)) tbl))"

section \<open>Plans, step results and verdicts\<close>

datatype pyval = PNone | PBool bool | PInt int | PStr string

fun opt_str :: "string option \<Rightarrow> pyval" where
  "opt_str None = PNone"
| "opt_str (Some s) = PStr s"

text \<open>\<^verbatim>\<open>str(x)\<close> of an optional string inside an f-string.\<close>

fun str_of :: "string option \<Rightarrow> string" where
  "str_of None = ''None''"
| "str_of (Some s) = s"

text \<open>
  A dictionary with string keys, in insertion order. \<^verbatim>\<open>d[k] = v\<close> replaces the value of
  an existing key in place and appends a new key at the end.
\<close>

type_synonym pydict = "(string \<times> pyval) list"

fun dict_set :: "string \<Rightarrow> pyval \<Rightarrow> pydict \<Rightarrow> pydict" where
  "dict_set k v [] = [(k, v)]"
| "dict_set k v ((k', v') # kvs) =
     (if k' = k then (k, v) # kvs else (k', v') # dict_set k v kvs)"

text \<open>
  A planned step is the JSON object \<^verbatim>\<open>{"tool": ..., "params": {...}}\<close>; either key may be
  missing, which \<^verbatim>\<open>step.get\<close> turns into \<^verbatim>\<open>None\<close> and \<^verbatim>\<open>{}\<close>.
\<close>

record step =
  tool :: "string option"
  params :: "pydict option"

text \<open>
  What the pipeline reads of a tool's result dictionary: \<^verbatim>\<open>success\<close> (a missing key
  reads as false both through \<^verbatim>\<open>get("success")\<close> and \<^verbatim>\<open>get("success", False)\<close>),
  \<^verbatim>\<open>consent_granted\<close> (\<open>None\<close> when the key is missing), \<^verbatim>\<open>error\<close>, and the remaining
  operation-specific fields.
\<close>

record step_result =
  success :: bool
  consent_granted :: "bool option"
  error :: "string option"
  other_fields :: pydict

text \<open>
  The verdict dictionary of the filter agent. Every key is optional; the keys written by
  \<^verbatim>\<open>utils.handle_error\<close> and by the retry path are part of it.
\<close>

record validation =
  valid :: "bool option"
  violation_type :: "string option"
  severity :: "string option"
  explanation :: "string option"
  corrected_sequence :: "step list option"
  allow_retry :: "bool option"
  requires_user_consent :: "bool option"
  recommendation :: "string option"
  retry :: "bool option"
  handled_success :: "bool option"
  handled_error :: "string option"
  handled_error_type :: "string option"

definition empty_dict :: validation where
  "empty_dict =
     \<lparr> valid = None, violation_type = None, severity = None, explanation = None,
       corrected_sequence = None, allow_retry = None, requires_user_consent = None,
       recommendation = None, retry = None, handled_success = None,
       handled_error = None, handled_error_type = None \<rparr>"

text \<open>
  \<^verbatim>\<open>utils.handle_error(e, context)\<close> as a verdict dictionary:
  \<^verbatim>\<open>{"success": False, "error": "<context>: <str(e)>", "error_type": <type name>}\<close>.
\<close>

definition handle_error_dict :: "string \<Rightarrow> string \<Rightarrow> string \<Rightarrow> validation" where
  "handle_error_dict msg ty ctx =
     empty_dict\<lparr> handled_success := Some False,
                 handled_error := Some (ctx @ '': '' @ msg),
                 handled_error_type := Some ty \<rparr>"

text \<open>
  A reply of the language model to one \<^verbatim>\<open>generate_content\<close> call: text that parses to
  the expected JSON; text that does not parse, with the message of the
  \<^verbatim>\<open>json.JSONDecodeError\<close>; or any other exception raised while the reply is obtained and
  read, with its message and type name.
\<close>

datatype 'a reply = Reply 'a | BadJson string | Raised string string

section \<open>Filter agent (filter.py)\<close>

text \<open>
  The prompts sent through the filter agent's model, in order. The agent itself is the
  process-wide instance that \<^verbatim>\<open>get_filter_agent\<close> creates once and hands to every caller.
  Of the agent's attributes the counters are kept; the loaded policies and the model
  handle take no part in the control flow. The entries that \<^verbatim>\<open>utils.log_violation\<close>
  appends to the violation log are left out.
\<close>

datatype oracle_call =
    ValidatePlanned "step list" pydict
  | ValidateExecuted "step list" "step_result list"
  | Correct "step list" validation

record filter_agent =
  violation_count :: int
  retry_count :: int
  oracle_calls :: "oracle_call list"

definition new_filter_agent :: filter_agent where
  "new_filter_agent = \<lparr> violation_count = 0, retry_count = 0, oracle_calls = [] \<rparr>"

definition get_filter_agent :: "filter_agent option \<Rightarrow> filter_agent \<times> filter_agent option" where
  "get_filter_agent inst =
     (case inst of
        None \<Rightarrow> (new_filter_agent, Some new_filter_agent)
      | Some fa \<Rightarrow> (fa, Some fa))"

definition validate_planned_execution ::
  "validation reply \<Rightarrow> step list \<Rightarrow> pydict \<Rightarrow> filter_agent \<Rightarrow> validation \<times> filter_agent" where
  "validate_planned_execution rep planned_sequence ctx fa =
     (let fa1 = fa\<lparr> oracle_calls := oracle_calls fa @ [ValidatePlanned planned_sequence ctx] \<rparr>
      in case rep of
           Reply validation_result \<Rightarrow>
             (if valid validation_result \<noteq> Some True
              then (validation_result, fa1\<lparr> violation_count := violation_count fa1 + 1 \<rparr>)
              else (validation_result, fa1))
         | BadJson msg \<Rightarrow>
             (empty_dict\<lparr> valid := Some False,
                          violation_type := Some ''validation_error'',
                          severity := Some ''error'',
                          explanation := Some ''Filter agent produced invalid response format'',
                          allow_retry := Some False \<rparr>, fa1)
         | Raised msg ty \<Rightarrow>
             (handle_error_dict msg ty ''validate_planned_execution'', fa1))"

definition validate_execution_result ::
  "validation reply \<Rightarrow> step list \<Rightarrow> step_result list \<Rightarrow> filter_agent \<Rightarrow>
   validation \<times> filter_agent" where
  "validate_execution_result rep executed_sequence results fa =
     (let fa1 = fa\<lparr> oracle_calls := oracle_calls fa @ [ValidateExecuted executed_sequence results] \<rparr>
      in case rep of
           Reply validation_result \<Rightarrow> (validation_result, fa1)
         | BadJson msg \<Rightarrow>
             (handle_error_dict msg ''JSONDecodeError'' ''validate_execution_result'', fa1)
         | Raised msg ty \<Rightarrow>
             (handle_error_dict msg ty ''validate_execution_result'', fa1))"

text \<open>
  \<^verbatim>\<open>generate_corrected_sequence\<close> returns the parsed reply when it is a list and
  \<^verbatim>\<open>None\<close> otherwise (a JSON \<^verbatim>\<open>null\<close>, a reply that does not parse, a raised exception).
\<close>

definition generate_corrected_sequence ::
  "step list option reply \<Rightarrow> step list \<Rightarrow> validation \<Rightarrow> filter_agent \<Rightarrow>
   step list option \<times> filter_agent" where
  "generate_corrected_sequence rep invalid_sequence violation_info fa =
     (let fa1 = fa\<lparr> oracle_calls := oracle_calls fa @ [Correct invalid_sequence violation_info] \<rparr>
      in case rep of
           Reply corrected \<Rightarrow> (corrected, fa1)
         | BadJson msg \<Rightarrow> (None, fa1)
         | Raised msg ty \<Rightarrow> (None, fa1))"

record retry_info =
  ri_allow_retry :: "bool option"
  reason :: "string option"
  corrected_request :: "step list option"
  ri_requires_user_consent :: "bool option"
  ri_explanation :: "string option"
  ri_recommendation :: "string option"
  retry_number :: "int option"

definition refusal :: "string \<Rightarrow> retry_info" where
  "refusal why =
     \<lparr> ri_allow_retry = Some False, reason = Some why, corrected_request = None,
       ri_requires_user_consent = None, ri_explanation = None, ri_recommendation = None,
       retry_number = None \<rparr>"

text \<open>Python truthiness of an optional list: \<^verbatim>\<open>None\<close> and \<^verbatim>\<open>[]\<close> are false.\<close>

fun truthy_list :: "'a list option \<Rightarrow> bool" where
  "truthy_list None = False"
| "truthy_list (Some xs) = (xs \<noteq> [])"

text \<open>Decimal text of an integer, for the f-string of the exhausted-budget reason.\<close>

fun digits_of :: "nat \<Rightarrow> nat \<Rightarrow> string" where
  "digits_of 0 n = []"
| "digits_of (Suc fuel) n =
     (if n < 10 then [char_of (48 + n)]
      else digits_of fuel (n div 10) @ [char_of (48 + n mod 10)])"

definition str_int :: "int \<Rightarrow> string" where
  "str_int i =
     (if i < 0 then CHR ''-'' # digits_of (Suc (nat (- i))) (nat (- i))
      else digits_of (Suc (nat i)) (nat i))"

definition handle_retry ::
  "config \<Rightarrow> step list option reply \<Rightarrow> step list \<Rightarrow> validation \<Rightarrow> filter_agent \<Rightarrow>
   retry_info \<times> filter_agent" where
  "handle_retry cfg rep original_sequence violation_info fa =
     (if (case severity violation_info of None \<Rightarrow> ''error'' | Some s \<Rightarrow> s) = ''critical''
      then (refusal ''Critical violations cannot be retried. Requires admin review.'', fa)
      else if retry_count fa \<ge> FILTER_MAX_RETRIES cfg
      then (refusal (''Maximum retry attempts ('' @ str_int (FILTER_MAX_RETRIES cfg) @ '') exceeded.''), fa)
      else
        (case generate_corrected_sequence rep original_sequence violation_info fa of
           (corrected, fa1) \<Rightarrow>
             if \<not> truthy_list corrected
             then (refusal ''Unable to generate valid correction.'', fa1)
             else
               (let fa2 = fa1\<lparr> retry_count := retry_count fa1 + 1 \<rparr>
                in (\<lparr> ri_allow_retry = Some True,
                       reason = None,
                       corrected_request = corrected,
                       ri_requires_user_consent = Some (FILTER_REQUIRE_USER_CONSENT cfg),
                       ri_explanation = explanation violation_info,
                       ri_recommendation = recommendation violation_info,
                       retry_number = Some (retry_count fa2) \<rparr>, fa2))))"

definition reset_counters :: "filter_agent \<Rightarrow> filter_agent" where
  "reset_counters fa = fa\<lparr> violation_count := 0, retry_count := 0 \<rparr>"


section \<open>Root agent (root.py)\<close>

text \<open>
  A tool is called with the keyword arguments of its step and either returns its result
  dictionary or raises; \<open>Inl\<close> carries \<^verbatim>\<open>str(e)\<close> of the exception. The tools read and
  write files (the record stores, the audit trail); \<open>'w\<close> is the state of those.
\<close>

type_synonym 'w tool_func = "pydict \<Rightarrow> 'w \<Rightarrow> (string + step_result) \<times> 'w"

record 'w tool_functions =
  token_generator_tool :: "'w tool_func"
  verify_credentials_tool :: "'w tool_func"
  check_consent_tool :: "'w tool_func"
  fetch_record_tool :: "'w tool_func"
  audit_logger_tool :: "'w tool_func"
  record_appender_tool :: "'w tool_func"
  pdf_generator_tool :: "'w tool_func"
  report_summarizer_tool :: "'w tool_func"

definition register_tools :: "'w tool_functions \<Rightarrow> string \<Rightarrow> 'w tool_func option" where
  "register_tools t =
     map_of
       [(''token_generator'', token_generator_tool t),
        (''verify_clinician_credentials'', verify_credentials_tool t),
        (''check_patient_consent_status'', check_consent_tool t),
        (''fetch_patient_record'', fetch_record_tool t),
        (''log_access_to_audit_trail'', audit_logger_tool t),
        (''record_appender'', record_appender_tool t),
        (''pdf_generator'', pdf_generator_tool t),
        (''report_summarizer'', report_summarizer_tool t)]"

definition failed_result :: "string \<Rightarrow> step_result" where
  "failed_result msg =
     \<lparr> success = False, consent_granted = None, error = Some msg, other_fields = [] \<rparr>"

text \<open>
  One pass of the loop body of \<^verbatim>\<open>_execute_sequence\<close> up to \<^verbatim>\<open>results.append(result)\<close>.
  The parameter dictionary is changed in place, so the step of the caller's list changes
  with it when the step has a \<^verbatim>\<open>params\<close> key; the step is returned as it is afterwards.
\<close>

definition run_step ::
  "(string \<Rightarrow> 'w tool_func option) \<Rightarrow> string option \<Rightarrow> step \<Rightarrow> 'w \<Rightarrow> step_result \<times> step \<times> 'w" where
  "run_step tools tok st w =
     (let tool_name = tool st;
          ps = (case params st of None \<Rightarrow> [] | Some d \<Rightarrow> d)
      in case (case tool_name of None \<Rightarrow> None | Some n \<Rightarrow> tools n) of
           None \<Rightarrow>
             (failed_result (''Tool '' @ [CHR 0x27] @ str_of tool_name @ [CHR 0x27] @ '' not found''),
              st, w)
         | Some tool_func \<Rightarrow>
             (let ps1 = (if tool_name = Some ''log_access_to_audit_trail''
                            \<and> map_of ps ''token_id'' = None
                         then dict_set ''token_id'' (opt_str tok) ps else ps);
                  ps2 = (if tool_name = Some ''log_access_to_audit_trail''
                            \<and> (map_of ps1 ''token_id'' = Some (PStr ''SESSION_TOKEN'')
                                \<or> map_of ps1 ''token_id'' = Some (PStr ''TOKEN''))
                         then dict_set ''token_id'' (opt_str tok) ps1 else ps1);
                  st' = (case params st of None \<Rightarrow> st | Some d \<Rightarrow> st\<lparr> params := Some ps2 \<rparr>)
              in case tool_func ps2 w of
                   (Inr result, w') \<Rightarrow> (result, st', w')
                 | (Inl msg, w') \<Rightarrow> (failed_result msg, st', w')))"

text \<open>
  The test after \<^verbatim>\<open>results.append(result)\<close> that leaves the loop: a result whose
  \<^verbatim>\<open>success\<close> is false, or a successful consent check whose \<^verbatim>\<open>consent_granted\<close> is false
  (a missing key reads as true).
\<close>

definition stops :: "string option \<Rightarrow> step_result \<Rightarrow> bool" where
  "stops tool_name result =
     (if success result
      then tool_name = Some ''check_patient_consent_status''
           \<and> \<not> (case consent_granted result of None \<Rightarrow> True | Some b \<Rightarrow> b)
      else True)"

text \<open>
  \<^verbatim>\<open>_execute_sequence\<close>: the results in order, the caller's list as the loop left it, and
  the state the tools left.
\<close>

fun execute_sequence ::
  "(string \<Rightarrow> 'w tool_func option) \<Rightarrow> string option \<Rightarrow> step list \<Rightarrow> 'w \<Rightarrow>
   step_result list \<times> step list \<times> 'w" where
  "execute_sequence tools tok [] w = ([], [], w)"
| "execute_sequence tools tok (st # rest) w =
     (case run_step tools tok st w of
        (result, st', w1) \<Rightarrow>
          if stops (tool st) result then ([result], st' # rest, w1)
          else (case execute_sequence tools tok rest w1 of
                  (results, rest', w2) \<Rightarrow> (result # results, st' # rest', w2)))"

text \<open>
  The three dictionaries a request can return: the one \<^verbatim>\<open>_format_response\<close> builds,
  the one \<^verbatim>\<open>_error_response\<close> builds, and the one \<^verbatim>\<open>utils.handle_error\<close> builds when
  an exception reaches the outer \<^verbatim>\<open>except\<close> of \<^verbatim>\<open>process_request\<close>.
\<close>

datatype response =
    Completed (resp_success: bool) (resp_session_token: "string option")
      (executed_sequence: "step list") (results: "step_result list")
      (resp_validation: validation) (message: string)
  | Failed (resp_error: string) (violation_info: "validation option")
      (failed_session_token: "string option")
  | Crashed (crash_error: string) (crash_error_type: string)

definition format_response ::
  "string option \<Rightarrow> step list \<Rightarrow> step_result list \<Rightarrow> validation \<Rightarrow> response" where
  "format_response tok planned_sequence execution_results v =
     (let all_success = list_all success execution_results
      in Completed (all_success \<and> valid v \<noteq> Some False) tok planned_sequence
           execution_results v
           (if all_success then ''Request completed'' else ''Request completed with errors''))"

definition error_response :: "string option \<Rightarrow> string \<Rightarrow> validation option \<Rightarrow> response" where
  "error_response tok error_message info = Failed error_message info tok"

text \<open>
  The state that outlives a request: the process-wide filter agent, the session memory
  table, the state of the tools, and the root agent's \<^verbatim>\<open>current_session_token\<close>.
\<close>

record 'w world =
  filter_state :: filter_agent
  memory :: session_memory
  tool_state :: 'w
  current_session_token :: "string option"

text \<open>
  What the collaborators answer during one request: the token generator, the clock and
  the storage layer at the two memory calls, the planning model, the filter agent's model
  at each of its three kinds of call, and the user at the retry prompt.
\<close>

record request_env =
  token_result :: "string option"
  recall_now :: int
  recall_raises :: bool
  plan_reply :: "step list reply"
  validate_reply :: "validation reply"
  user_confirms :: bool
  correct_reply :: "step list option reply"
  post_reply :: "validation reply"
  remember_now :: int
  remember_raises :: bool

definition request_context ::
  "string \<Rightarrow> string option \<Rightarrow> string option \<Rightarrow> string option \<Rightarrow> pydict option \<Rightarrow> pydict" where
  "request_context user_query clinician patient tok ctx =
     fold (\<lambda>(k, v). dict_set k v) (case ctx of None \<Rightarrow> [] | Some c \<Rightarrow> c)
       [(''user_query'', PStr user_query),
        (''clinician_id'', opt_str clinician),
        (''patient_id'', opt_str patient),
        (''session_token'', opt_str tok)]"

definition retry_marker :: validation where
  "retry_marker = empty_dict\<lparr> valid := Some True, retry := Some True \<rparr>"

text \<open>
  The middle of \<^verbatim>\<open>_handle_retry\<close>: the corrected sequence is the verdict's own
  \<^verbatim>\<open>corrected_sequence\<close> when that is a non-empty list, and otherwise what the filter
  agent's \<^verbatim>\<open>handle_retry\<close> returns as \<^verbatim>\<open>corrected_request\<close>.
\<close>

definition obtain_corrected ::
  "config \<Rightarrow> request_env \<Rightarrow> step list \<Rightarrow> validation \<Rightarrow> filter_agent \<Rightarrow>
   step list option \<times> filter_agent" where
  "obtain_corrected cfg env original_plan v fa =
     (if truthy_list (corrected_sequence v)
      then (corrected_sequence v, fa)
      else (case handle_retry cfg (correct_reply env) original_plan v fa of
              (info, fa') \<Rightarrow> (corrected_request info, fa')))"

text \<open>
  \<^verbatim>\<open>_handle_retry\<close>: the consent prompt when the configuration asks for it, the corrected
  sequence, its execution, and the response with the fixed verdict of the retry path.
\<close>

definition root_handle_retry ::
  "config \<Rightarrow> (string \<Rightarrow> 'w tool_func option) \<Rightarrow> request_env \<Rightarrow> step list \<Rightarrow> validation \<Rightarrow>
   pydict \<Rightarrow> 'w world \<Rightarrow> response \<times> 'w world" where
  "root_handle_retry cfg tools env original_plan v ctx w =
     (if FILTER_REQUIRE_USER_CONSENT cfg \<and> \<not> user_confirms env
      then (error_response (current_session_token w) ''User declined retry'' (Some v), w)
      else
        (case obtain_corrected cfg env original_plan v (filter_state w) of
           (corrected, fa) \<Rightarrow>
             (let w1 = w\<lparr> filter_state := fa \<rparr>
              in if \<not> truthy_list corrected
                 then (error_response (current_session_token w1)
                         ''Unable to generate corrected sequence'' None, w1)
                 else
                   (case execute_sequence tools (current_session_token w1) (the corrected)
                           (tool_state w1) of
                      (execution_results, cs', ts) \<Rightarrow>
                        (format_response (current_session_token w1) cs' execution_results
                           retry_marker,
                         w1\<lparr> tool_state := ts \<rparr>)))))"

text \<open>
  Step 2 of \<^verbatim>\<open>process_request\<close>, the context recall: the patient and clinician ids the
  request goes on with. The memory is asked only when one of the two is missing, and a
  recalled id fills in only a missing one.
\<close>

definition recall_context ::
  "config \<Rightarrow> request_env \<Rightarrow> string \<Rightarrow> string option \<Rightarrow> string option \<Rightarrow> session_memory \<Rightarrow>
   string option \<times> string option" where
  "recall_context cfg env tok patient clinician mem =
     (if MEMORY_ENABLED cfg \<and> (\<not> truthy_str patient \<or> \<not> truthy_str clinician)
      then (case fst (recall (recall_raises env) (recall_now env) tok mem) of
              None \<Rightarrow> (patient, clinician)
            | Some recalled \<Rightarrow>
                (if \<not> truthy_str patient \<and> truthy_str (last_patient_id recalled)
                 then last_patient_id recalled else patient,
                 if \<not> truthy_str clinician \<and> truthy_str (row_clinician_id recalled)
                 then row_clinician_id recalled else clinician))
      else (patient, clinician))"

text \<open>
  \<^verbatim>\<open>process_request\<close>. The exceptions that reach its outer \<^verbatim>\<open>except\<close> are those of the
  planning call and the \<^verbatim>\<open>KeyError\<close> of \<^verbatim>\<open>step['tool']\<close> when the plan is printed; the
  filter agent, the memory manager and the pipeline catch their own.
\<close>

definition process_request ::
  "config \<Rightarrow> (string \<Rightarrow> 'w tool_func option) \<Rightarrow> request_env \<Rightarrow> string \<Rightarrow> string option \<Rightarrow>
   string option \<Rightarrow> pydict option \<Rightarrow> 'w world \<Rightarrow> response \<times> 'w world" where
  "process_request cfg tools env user_query clinician patient context w =
     (case token_result env of
        None \<Rightarrow>
          (error_response (current_session_token w) ''Failed to generate session token'' None, w)
      | Some tok \<Rightarrow>
          (let w1 = w\<lparr> current_session_token := Some tok \<rparr>;
               ids = recall_context cfg env tok patient clinician (memory w1);
               patient1 = fst ids;
               clinician1 = snd ids
           in case plan_reply env of
                Raised msg ty \<Rightarrow> (Crashed (''process_request: '' @ msg) ty, w1)
              | BadJson msg \<Rightarrow>
                  (error_response (Some tok) ''Agent failed to generate a valid plan'' None, w1)
              | Reply planned_sequence \<Rightarrow>
                  if \<exists>st \<in> set planned_sequence. tool st = None
                  then (Crashed (''process_request: '' @ [CHR 0x27] @ ''tool'' @ [CHR 0x27])
                          ''KeyError'', w1)
                  else
                    (let ctx = request_context user_query clinician1 patient1 (Some tok) context
                     in case validate_planned_execution (validate_reply env) planned_sequence ctx
                               (filter_state w1) of
                          (v, fa) \<Rightarrow>
                            (let w2 = w1\<lparr> filter_state := fa \<rparr>
                             in if valid v \<noteq> Some True
                                then
                                  (if allow_retry v = Some True
                                   then root_handle_retry cfg tools env planned_sequence v ctx w2
                                   else (error_response (Some tok)
                                           (''Policy violation: '' @ str_of (explanation v))
                                           (Some v), w2))
                                else
                                  (case execute_sequence tools (Some tok) planned_sequence
                                          (tool_state w2) of
                                     (execution_results, seq', ts) \<Rightarrow>
                                       (case validate_execution_result (post_reply env) seq'
                                               execution_results (filter_state w2) of
                                          (post_validation, fa') \<Rightarrow>
                                            (let mem =
                                               (if MEMORY_ENABLED cfg \<and> truthy_str patient1
                                                   \<and> truthy_str clinician1
                                                then snd (remember cfg (remember_raises env)
                                                            (remember_now env) tok patient1 clinician1
                                                            (Some user_query) (memory w2))
                                                else memory w2)
                                             in (format_response (Some tok) seq' execution_results
                                                   post_validation,
                                                 w2\<lparr> filter_state := fa', tool_state := ts,
                                                     memory := mem \<rparr>))))))))"

section \<open>Example data\<close>

text \<open>
  A registry of stand-in tools whose state is the list of the tools invoked so far. Each
  succeeds; the consent check grants consent for patient \<^verbatim>\<open>PT_0001\<close> only and, like the
  real one, reports a denial with \<^verbatim>\<open>success: True\<close> and \<^verbatim>\<open>consent_granted: False\<close>.
\<close>

definition ok_result :: step_result where
  "ok_result = \<lparr> success = True, consent_granted = None, error = None, other_fields = [] \<rparr>"

definition demo_tool :: "string \<Rightarrow> string list tool_func" where
  "demo_tool name ps w = (Inr ok_result, w @ [name])"

definition demo_consent_tool :: "string list tool_func" where
  "demo_consent_tool ps w =
     (Inr (ok_result\<lparr> consent_granted :=
                        Some (map_of ps ''patient_id'' = Some (PStr ''PT_0001'')) \<rparr>),
      w @ [''check_consent''])"

definition demo_tools :: "string list tool_functions" where
  "demo_tools =
     \<lparr> token_generator_tool = demo_tool ''token_generator'',
       verify_credentials_tool = demo_tool ''verify_credentials'',
       check_consent_tool = demo_consent_tool,
       fetch_record_tool = demo_tool ''fetch_record'',
       audit_logger_tool = demo_tool ''audit_logger'',
       record_appender_tool = demo_tool ''record_appender'',
       pdf_generator_tool = demo_tool ''pdf_generator'',
       report_summarizer_tool = demo_tool ''report_summarizer'' \<rparr>"

definition verify_step :: step where
  "verify_step =
     \<lparr> tool = Some ''verify_clinician_credentials'',
       params = Some [(''clinician_id'', PStr ''DR_0001'')] \<rparr>"

definition consent_step :: "string \<Rightarrow> step" where
  "consent_step pt =
     \<lparr> tool = Some ''check_patient_consent_status'',
       params = Some [(''patient_id'', PStr pt), (''clinician_id'', PStr ''DR_0001'')] \<rparr>"

definition fetch_step :: "string \<Rightarrow> step" where
  "fetch_step pt =
     \<lparr> tool = Some ''fetch_patient_record'', params = Some [(''patient_id'', PStr pt)] \<rparr>"

definition log_step :: step where
  "log_step =
     \<lparr> tool = Some ''log_access_to_audit_trail'',
       params = Some [(''clinician_id'', PStr ''DR_0001''), (''action'', PStr ''fetch_record'')] \<rparr>"

definition full_sequence :: "string \<Rightarrow> step list" where
  "full_sequence pt = [verify_step, consent_step pt, fetch_step pt, log_step]"

definition demo_world :: "string list world" where
  "demo_world =
     \<lparr> filter_state = new_filter_agent, memory = [], tool_state = [],
       current_session_token = None \<rparr>"

text \<open>A verdict that rejects a plan, with the given severity and corrected sequence.\<close>

definition violation :: "string \<Rightarrow> step list option \<Rightarrow> validation" where
  "violation sev corrected =
     empty_dict\<lparr> valid := Some False,
                 violation_type := Some ''sequence_violation'',
                 severity := Some sev,
                 explanation := Some ''Consent check skipped'',
                 corrected_sequence := corrected,
                 allow_retry := Some True,
                 requires_user_consent := Some True \<rparr>"

definition passing :: validation where
  "passing = empty_dict\<lparr> valid := Some True, violation_type := Some ''none'',
                          severity := Some ''none'' \<rparr>"

definition demo_env :: "string \<Rightarrow> step list \<Rightarrow> validation \<Rightarrow> request_env" where
  "demo_env tok plan v =
     \<lparr> token_result = Some tok,
       recall_now = 1000,
       recall_raises = False,
       plan_reply = Reply plan,
       validate_reply = Reply v,
       user_confirms = True,
       correct_reply = Reply (Some (full_sequence ''PT_0001'')),
       post_reply = Reply passing,
       remember_now = 2000,
       remember_raises = False \<rparr>"

text \<open>
  The full sequence as \<^verbatim>\<open>_execute_sequence\<close> leaves it: the audit step has received the
  request's token.
\<close>

definition logged_sequence :: "string \<Rightarrow> string \<Rightarrow> step list" where
  "logged_sequence pt tok =
     [verify_step, consent_step pt, fetch_step pt,
      log_step\<lparr> params := Some [(''clinician_id'', PStr ''DR_0001''),
                                 (''action'', PStr ''fetch_record''),
                                 (''token_id'', PStr tok)] \<rparr>]"

definition full_results :: "step_result list" where
  "full_results = [ok_result, ok_result\<lparr> consent_granted := Some True \<rparr>, ok_result, ok_result]"

definition full_trace :: "string list" where
  "full_trace = [''verify_credentials'', ''check_consent'', ''fetch_record'', ''audit_logger'']"

text \<open>
  A request that plans to fetch a record without the checks before it, as the caller
  \<^verbatim>\<open>DR_0001\<close> makes it; the verdict is a parameter.
\<close>

definition skipping_request :: "validation \<Rightarrow> string list world \<Rightarrow> response \<times> string list world" where
  "skipping_request v w =
     process_request config_template (register_tools demo_tools)
       (demo_env ''HIPAA_A_20250101000000'' [fetch_step ''PT_0001''] v)
       ''fetch the record'' (Some ''DR_0001'') (Some ''PT_0001'') None w"

definition skipping_context :: pydict where
  "skipping_context =
     [(''user_query'', PStr ''fetch the record''),
      (''clinician_id'', PStr ''DR_0001''),
      (''patient_id'', PStr ''PT_0001''),
      (''session_token'', PStr ''HIPAA_A_20250101000000'')]"

text \<open>
  A request whose plan is the full sequence and passes validation, made with the given
  ids and with the caller's session id \<^verbatim>\<open>S1\<close> passed along in the context dictionary.
\<close>

definition continuing_request ::
  "string option \<Rightarrow> string option \<Rightarrow> string list world \<Rightarrow> response \<times> string list world" where
  "continuing_request clinician patient w =
     process_request config_template (register_tools demo_tools)
       (demo_env ''HIPAA_B_20250101000000'' (full_sequence ''PT_0001'') passing)
       ''fetch the record'' clinician patient (Some [(''session_id'', PStr ''S1'')]) w"

text \<open>
  The filter agent after three retries granted to one caller, and the retry another
  caller then asks for.
\<close>

definition granted_retry :: "filter_agent \<Rightarrow> retry_info \<times> filter_agent" where
  "granted_retry fa =
     handle_retry config_template (Reply (Some (full_sequence ''PT_0001'')))
       [fetch_step ''PT_0001''] (violation ''error'' None) fa"

definition after_three_retries :: filter_agent where
  "after_three_retries =
     snd (granted_retry (snd (granted_retry (snd (granted_retry new_filter_agent)))))"

definition other_retry :: "filter_agent \<Rightarrow> retry_info \<times> filter_agent" where
  "other_retry fa =
     handle_retry config_template (Reply (Some (full_sequence ''PT_0003'')))
       [fetch_step ''PT_0003''] (violation ''warning'' None) fa"

definition session_S1 :: session_row where
  "session_S1 =
     \<lparr> session_id = ''S1'',
       row_clinician_id = Some ''DR_0001'',
       last_patient_id = Some ''PT_0001'',
       last_action = Some ''access'',
       conversation_history =
         [\<lparr> timestamp = 0, action = ''access'', patient_id = Some ''PT_0001'',
            clinician_id = Some ''DR_0001'' \<rparr>],
       created_at = 0,
       expires_at = 43200000000 \<rparr>"

definition expired_row :: session_row where
  "expired_row = session_S1\<lparr> session_id := ''S0'', expires_at := 500 \<rparr>"

definition call_at :: "int \<Rightarrow> remember_call" where
  "call_at t =
     \<lparr> call_now = t, call_patient = Some ''PT_0001'', call_clinician = None,
       call_action = ''access'' \<rparr>"

section \<open>Session memory: merge, history bound, expiry, deletion\<close>

lemma find_map_update:
  assumes "\<And>r. session_id (g r) = session_id r"
  shows "find (\<lambda>r. session_id r = sid) (map (\<lambda>r. if session_id r = sid then g r else r) tbl)
         = map_option g (find (\<lambda>r. session_id r = sid) tbl)"
  using assms by (induction tbl) auto

lemma find_append_new:
  "find P xs = None \<Longrightarrow> find P (xs @ [x]) = (if P x then Some x else None)"
  by (induction xs) (auto split: if_splits)

lemma find_Some_holds: "find P xs = Some x \<Longrightarrow> P x"
  by (induction xs) (auto split: if_splits)

lemma remember_existing_row:
  assumes "find (\<lambda>r. session_id r = sid) tbl = Some r0"
  shows "\<exists>r1. find (\<lambda>r. session_id r = sid) (snd (remember cfg False now sid patient clinician act tbl)) = Some r1
         \<and> row_clinician_id r1 = COALESCE clinician (row_clinician_id r0)
         \<and> last_patient_id r1 = COALESCE patient (last_patient_id r0)
         \<and> last_action r1 = COALESCE act (last_action r0)
         \<and> session_id r1 = sid
         \<and> expires_at r1 = now + MEMORY_DURATION_HOURS cfg * microseconds_per_hour"
  using assms find_Some_holds[OF assms]
  by (simp add: remember_def Let_def find_map_update)

lemma remember_new_row:
  assumes "find (\<lambda>r. session_id r = sid) tbl = None"
  shows "\<exists>r1. find (\<lambda>r. session_id r = sid) (snd (remember cfg False now sid patient clinician act tbl)) = Some r1
         \<and> row_clinician_id r1 = clinician
         \<and> last_patient_id r1 = patient
         \<and> last_action r1 = act
         \<and> session_id r1 = sid
         \<and> expires_at r1 = now + MEMORY_DURATION_HOURS cfg * microseconds_per_hour"
  using assms by (simp add: remember_def Let_def find_append_new)



lemma py_slice_from_neg_pos:
  "0 < n \<Longrightarrow> py_slice_from_neg n xs = drop (length xs - nat n) xs"
  by (simp add: py_slice_from_neg_def)


lemma drop_keep_last_append:
  "drop (length (drop (length xs - n) xs @ ys) - n) (drop (length xs - n) xs @ ys)
   = drop (length (xs @ ys) - n) (xs @ ys)"
  by (cases "length xs \<le> n") (auto simp: add.commute)

lemma stored_history_remember:
  assumes "1 \<le> MAX_CONVERSATION_HISTORY cfg" and "a \<noteq> []"
  shows "stored_history sid (snd (remember cfg False now sid p c (Some a) tbl))
         = (let h = stored_history sid tbl @
                      [\<lparr> timestamp = now, action = a, patient_id = p, clinician_id = c \<rparr>]
            in drop (length h - nat (MAX_CONVERSATION_HISTORY cfg)) h)"
proof (cases "find (\<lambda>r. session_id r = sid) tbl")
  case None
  with assms show ?thesis
    by (simp add: stored_history_def remember_def Let_def find_append_new)
next
  case (Some r0)
  have sid: "session_id r0 = sid" using find_Some_holds[OF Some] .
  from Some assms show ?thesis
    by (simp add: stored_history_def remember_def Let_def find_map_update
        py_slice_from_neg_pos sid) 
qed

lemma stored_history_remember_all:
  assumes "1 \<le> MAX_CONVERSATION_HISTORY cfg" and "\<forall>c\<in>set calls. call_action c \<noteq> []"
    and "calls \<noteq> []"
  shows "stored_history sid (remember_all cfg sid calls tbl)
         = drop (length (stored_history sid tbl @ map entry_of_call calls)
                   - nat (MAX_CONVERSATION_HISTORY cfg))
             (stored_history sid tbl @ map entry_of_call calls)"
  using assms
proof (induction calls arbitrary: tbl)
  case Nil
  then show ?case by simp
next
  case (Cons c cs)
  let ?n = "nat (MAX_CONVERSATION_HISTORY cfg)"
  let ?t1 = "snd (remember cfg False (call_now c) sid (call_patient c) (call_clinician c)
               (Some (call_action c)) tbl)"
  let ?h1 = "stored_history sid tbl @ [entry_of_call c]"
  have h1: "stored_history sid ?t1 = drop (length ?h1 - ?n) ?h1"
    using stored_history_remember[of cfg "call_action c" sid "call_now c" "call_patient c" "call_clinician c" tbl]
      Cons.prems by (simp add: Let_def entry_of_call_def)
  show ?case
  proof (cases "cs = []")
    case True
    then show ?thesis using h1 by simp
  next
    case False
    have "stored_history sid (remember_all cfg sid (c # cs) tbl)
          = stored_history sid (remember_all cfg sid cs ?t1)"
      by simp
    also have "\<dots> = drop (length (stored_history sid ?t1 @ map entry_of_call cs) - ?n)
                        (stored_history sid ?t1 @ map entry_of_call cs)"
      using Cons.IH[of ?t1] Cons.prems False by simp
    also have "\<dots> = drop (length (?h1 @ map entry_of_call cs) - ?n) (?h1 @ map entry_of_call cs)"
      unfolding h1 by (rule drop_keep_last_append)
    finally show ?thesis by simp
  qed
qed

lemma find_Some_mem: "find P xs = Some x \<Longrightarrow> x \<in> set xs"
  by (induction xs) (auto split: if_splits)

lemma remember_history_bound:
  assumes "1 \<le> MAX_CONVERSATION_HISTORY cfg"
    and "\<forall>r\<in>set tbl. int (length (conversation_history r)) \<le> MAX_CONVERSATION_HISTORY cfg"
  shows "\<forall>r\<in>set (snd (remember cfg raises now sid p c a tbl)).
           int (length (conversation_history r)) \<le> MAX_CONVERSATION_HISTORY cfg"
proof (cases "find (\<lambda>r. session_id r = sid) tbl")
  case None
  with assms show ?thesis
    by (auto simp: remember_def Let_def)
next
  case (Some r0)
  have "int (length (conversation_history r0)) \<le> MAX_CONVERSATION_HISTORY cfg"
    using find_Some_mem[OF Some] assms(2) by blast
  with Some assms show ?thesis
    by (auto simp: remember_def Let_def py_slice_from_neg_pos)
qed

lemma remember_all_history_bound:
  assumes "1 \<le> MAX_CONVERSATION_HISTORY cfg"
    and "\<forall>r\<in>set tbl. int (length (conversation_history r)) \<le> MAX_CONVERSATION_HISTORY cfg"
  shows "\<forall>r\<in>set (remember_all cfg sid calls tbl).
           int (length (conversation_history r)) \<le> MAX_CONVERSATION_HISTORY cfg"
  using assms
proof (induction calls arbitrary: tbl)
  case Nil
  then show ?case by simp
next
  case (Cons c cs)
  show ?case
    using Cons.IH[OF Cons.prems(1) remember_history_bound[OF Cons.prems(1) Cons.prems(2)]]
    by simp
qed

text \<open>
  Claim C8. With a bound \<open>H = MAX_CONVERSATION_HISTORY\<close> of at least one (the shipped value is
  five), a run of history-appending \<^verbatim>\<open>remember\<close> calls keeps every stored history within
  \<open>H\<close> entries, and once the run has \<open>H\<close> calls or more the stored history of the session is
  exactly the entries of the last \<open>H\<close> calls, oldest first.
\<close>

theorem C8_history_bounded_fifo:
  assumes "1 \<le> MAX_CONVERSATION_HISTORY cfg"
    and "\<forall>c\<in>set calls. call_action c \<noteq> []"
  shows "((\<forall>r\<in>set tbl. int (length (conversation_history r)) \<le> MAX_CONVERSATION_HISTORY cfg)
            \<longrightarrow> (\<forall>r\<in>set (remember_all cfg sid calls tbl).
                   int (length (conversation_history r)) \<le> MAX_CONVERSATION_HISTORY cfg))
       \<and> (nat (MAX_CONVERSATION_HISTORY cfg) \<le> length calls
            \<longrightarrow> stored_history sid (remember_all cfg sid calls tbl)
                = drop (length calls - nat (MAX_CONVERSATION_HISTORY cfg))
                    (map entry_of_call calls))"
proof (intro conjI impI)
  assume "\<forall>r\<in>set tbl. int (length (conversation_history r)) \<le> MAX_CONVERSATION_HISTORY cfg"
  then show "\<forall>r\<in>set (remember_all cfg sid calls tbl).
               int (length (conversation_history r)) \<le> MAX_CONVERSATION_HISTORY cfg"
    using remember_all_history_bound[OF assms(1)] by blast
next
  assume n: "nat (MAX_CONVERSATION_HISTORY cfg) \<le> length calls"
  with assms(1) have ne: "calls \<noteq> []" by auto
  show "stored_history sid (remember_all cfg sid calls tbl)
        = drop (length calls - nat (MAX_CONVERSATION_HISTORY cfg)) (map entry_of_call calls)"
    using stored_history_remember_all[OF assms ne, of sid tbl] n by simp
qed


lemma find_conj:
  "find P xs = Some r \<Longrightarrow> Q r \<Longrightarrow> find (\<lambda>x. P x \<and> Q x) xs = Some r"
  by (induction xs) (auto split: if_splits)

lemma remember_row:
  "\<exists>r1. find (\<lambda>r. session_id r = sid) (snd (remember cfg False now sid patient clinician act tbl)) = Some r1
     \<and> row_clinician_id r1 =
         (case find (\<lambda>r. session_id r = sid) tbl of
            None \<Rightarrow> clinician | Some r0 \<Rightarrow> COALESCE clinician (row_clinician_id r0))
     \<and> last_patient_id r1 =
         (case find (\<lambda>r. session_id r = sid) tbl of
            None \<Rightarrow> patient | Some r0 \<Rightarrow> COALESCE patient (last_patient_id r0))
     \<and> expires_at r1 = now + MEMORY_DURATION_HOURS cfg * microseconds_per_hour"
proof (cases "find (\<lambda>r. session_id r = sid) tbl")
  case None
  from remember_new_row[OF None, of cfg now patient clinician act] None
  show ?thesis by auto
next
  case (Some r0)
  from remember_existing_row[OF Some, of cfg now patient clinician act] Some
  show ?thesis by auto
qed

text \<open>
  Claim C7. \<^verbatim>\<open>remember(id, clinician=C, action=A)\<close> followed by
  \<^verbatim>\<open>remember(id, patient=P)\<close> with no clinician leaves clinician \<open>C\<close> in the stored row,
  whatever the table held before, and a later \<^verbatim>\<open>recall\<close> inside the expiry window returns
  it. In general a write to an existing row stores \<^verbatim>\<open>COALESCE(argument, old value)\<close> in
  each of the three optional columns: an absent argument keeps the prior value.
\<close>

theorem C7_remember_field_preserving_merge:
  "(let t1 = snd (remember cfg False now_a sid pat (Some C) (Some A) tbl);
        t2 = snd (remember cfg False now_b sid (Some P) None None t1)
    in fst (remember cfg False now_a sid pat (Some C) (Some A) tbl)
       \<and> fst (remember cfg False now_b sid (Some P) None None t1)
       \<and> map_option row_clinician_id (find (\<lambda>r. session_id r = sid) t2) = Some (Some C)
       \<and> map_option last_patient_id (find (\<lambda>r. session_id r = sid) t2) = Some (Some P)
       \<and> (now < now_b + MEMORY_DURATION_HOURS cfg * microseconds_per_hour
            \<longrightarrow> map_option row_clinician_id (fst (recall False now sid t2)) = Some (Some C)))
   \<and> (\<forall>r0. find (\<lambda>r. session_id r = sid) tbl = Some r0 \<longrightarrow>
         (\<exists>r1. find (\<lambda>r. session_id r = sid)
                  (snd (remember cfg False now sid patient clinician act tbl)) = Some r1
              \<and> row_clinician_id r1 = COALESCE clinician (row_clinician_id r0)
              \<and> last_patient_id r1 = COALESCE patient (last_patient_id r0)
              \<and> last_action r1 = COALESCE act (last_action r0)
              \<and> (clinician = None \<longrightarrow> row_clinician_id r1 = row_clinician_id r0)
              \<and> (patient = None \<longrightarrow> last_patient_id r1 = last_patient_id r0)
              \<and> (act = None \<longrightarrow> last_action r1 = last_action r0)))"
proof (intro conjI allI impI)
  fix r0 assume f: "find (\<lambda>r. session_id r = sid) tbl = Some r0"
  from remember_existing_row[OF f, of cfg now patient clinician act]
  show "\<exists>r1. find (\<lambda>r. session_id r = sid)
                  (snd (remember cfg False now sid patient clinician act tbl)) = Some r1
              \<and> row_clinician_id r1 = COALESCE clinician (row_clinician_id r0)
              \<and> last_patient_id r1 = COALESCE patient (last_patient_id r0)
              \<and> last_action r1 = COALESCE act (last_action r0)
              \<and> (clinician = None \<longrightarrow> row_clinician_id r1 = row_clinician_id r0)
              \<and> (patient = None \<longrightarrow> last_patient_id r1 = last_patient_id r0)
              \<and> (act = None \<longrightarrow> last_action r1 = last_action r0)"
    by auto
next
  let ?t1 = "snd (remember cfg False now_a sid pat (Some C) (Some A) tbl)"
  let ?t2 = "snd (remember cfg False now_b sid (Some P) None None ?t1)"
  obtain r1 where r1: "find (\<lambda>r. session_id r = sid) ?t1 = Some r1"
    and c1: "row_clinician_id r1 = Some C"
    using remember_row[of sid cfg now_a pat "Some C" "Some A" tbl]
    by (auto split: option.splits)
  obtain r2 where r2: "find (\<lambda>r. session_id r = sid) ?t2 = Some r2"
    and c2: "row_clinician_id r2 = Some C" and p2: "last_patient_id r2 = Some P"
    and e2: "expires_at r2 = now_b + MEMORY_DURATION_HOURS cfg * microseconds_per_hour"
    using remember_row[of sid cfg now_b "Some P" None None ?t1] r1 c1
    by auto
  show "let t1 = ?t1; t2 = snd (remember cfg False now_b sid (Some P) None None t1)
    in fst (remember cfg False now_a sid pat (Some C) (Some A) tbl)
       \<and> fst (remember cfg False now_b sid (Some P) None None t1)
       \<and> map_option row_clinician_id (find (\<lambda>r. session_id r = sid) t2) = Some (Some C)
       \<and> map_option last_patient_id (find (\<lambda>r. session_id r = sid) t2) = Some (Some P)
       \<and> (now < now_b + MEMORY_DURATION_HOURS cfg * microseconds_per_hour
            \<longrightarrow> map_option row_clinician_id (fst (recall False now sid t2)) = Some (Some C))"
    unfolding Let_def
  proof (intro conjI impI)
    show "fst (remember cfg False now_a sid pat (Some C) (Some A) tbl)"
      by (simp add: remember_def Let_def split: option.splits)
    show "fst (remember cfg False now_b sid (Some P) None None ?t1)"
      by (simp add: remember_def Let_def split: option.splits)
    show "map_option row_clinician_id (find (\<lambda>r. session_id r = sid) ?t2) = Some (Some C)"
      using r2 c2 by simp
    show "map_option last_patient_id (find (\<lambda>r. session_id r = sid) ?t2) = Some (Some P)"
      using r2 p2 by simp
    assume live: "now < now_b + MEMORY_DURATION_HOURS cfg * microseconds_per_hour"
    have "find (\<lambda>r. session_id r = sid \<and> now < expires_at r) ?t2 = Some r2"
      using find_conj[OF r2, of "\<lambda>r. now < expires_at r"] live e2 by simp
    then show "map_option row_clinician_id (fst (recall False now sid ?t2)) = Some (Some C)"
      using c2 by (simp add: recall_def)
  qed
qed

text \<open>
  Claim C9. \<^verbatim>\<open>recall\<close> returns \<^verbatim>\<open>None\<close> when no row of the session has \<open>expires_at\<close> after
  the current instant (the row is absent, or expired, the boundary instant included), and
  when the storage layer answers this is the only case; it leaves the table as it was.
  \<^verbatim>\<open>cleanup_expired_sessions\<close> keeps exactly the rows whose \<open>expires_at\<close> is not strictly
  before the current instant and returns the number of rows it removed.
\<close>

theorem C9_recall_and_sweep:
  "((\<forall>r\<in>set tbl. session_id r = sid \<longrightarrow> expires_at r \<le> now)
       \<longrightarrow> fst (recall raises now sid tbl) = None)
   \<and> (fst (recall False now sid tbl) = None
       \<longrightarrow> (\<forall>r\<in>set tbl. session_id r = sid \<longrightarrow> expires_at r \<le> now))
   \<and> snd (recall raises now sid tbl) = tbl
   \<and> snd (cleanup_expired_sessions False now tbl) = filter (\<lambda>r. \<not> expires_at r < now) tbl
   \<and> set (snd (cleanup_expired_sessions False now tbl)) = set tbl - {r. expires_at r < now}
   \<and> fst (cleanup_expired_sessions False now tbl)
       = int (length (filter (\<lambda>r. expires_at r < now) tbl))
   \<and> fst (cleanup_expired_sessions False now tbl)
       = int (length tbl) - int (length (snd (cleanup_expired_sessions False now tbl)))"
proof (intro conjI impI)
  assume "\<forall>r\<in>set tbl. session_id r = sid \<longrightarrow> expires_at r \<le> now"
  then show "fst (recall raises now sid tbl) = None"
    by (auto simp: recall_def find_None_iff)
next
  assume "fst (recall False now sid tbl) = None"
  then show "\<forall>r\<in>set tbl. session_id r = sid \<longrightarrow> expires_at r \<le> now"
    by (fastforce simp: recall_def find_None_iff)
next
  show "snd (recall raises now sid tbl) = tbl"
    by (simp add: recall_def)
  show "snd (cleanup_expired_sessions False now tbl) = filter (\<lambda>r. \<not> expires_at r < now) tbl"
    by (simp add: cleanup_expired_sessions_def)
  show "set (snd (cleanup_expired_sessions False now tbl)) = set tbl - {r. expires_at r < now}"
    by (auto simp: cleanup_expired_sessions_def)
  show "fst (cleanup_expired_sessions False now tbl)
       = int (length (filter (\<lambda>r. expires_at r < now) tbl))"
    by (simp add: cleanup_expired_sessions_def)
  have "length (filter (\<lambda>r. expires_at r < now) tbl)
        + length (filter (\<lambda>r. \<not> expires_at r < now) tbl) = length tbl"
    by (rule sum_length_filter_compl)
  then show "fst (cleanup_expired_sessions False now tbl)
       = int (length tbl) - int (length (snd (cleanup_expired_sessions False now tbl)))"
    by (simp add: cleanup_expired_sessions_def)
qed

text \<open>
  Claim C10. \<^verbatim>\<open>forget\<close> returns \<^verbatim>\<open>True\<close> whenever the storage layer answers, also when
  no row has the session id (the table is then unchanged); a \<^verbatim>\<open>recall\<close> of the id after
  it returns \<^verbatim>\<open>None\<close>; and it returns \<^verbatim>\<open>False\<close> exactly when the storage layer raises.
\<close>

theorem C10_forget_reports_success:
  "fst (forget False sid tbl)
   \<and> ((\<forall>r\<in>set tbl. session_id r \<noteq> sid) \<longrightarrow> forget False sid tbl = (True, tbl))
   \<and> fst (recall raises now sid (snd (forget False sid tbl))) = None
   \<and> (\<not> fst (forget raises sid tbl)) = raises"
proof (intro conjI impI)
  show "fst (forget False sid tbl)" by (simp add: forget_def)
  show "fst (recall raises now sid (snd (forget False sid tbl))) = None"
    by (auto simp: forget_def recall_def find_None_iff)
  show "(\<not> fst (forget raises sid tbl)) = raises" by (simp add: forget_def)
next
  assume "\<forall>r\<in>set tbl. session_id r \<noteq> sid"
  then have "filter (\<lambda>r. session_id r \<noteq> sid) tbl = tbl"
    by (simp add: filter_id_conv)
  then show "forget False sid tbl = (True, tbl)" by (simp add: forget_def)
qed

theorem C9_recall_and_sweep_witness:
  "list_all (\<lambda>r. session_id r \<noteq> ''S0'' \<or> expires_at r \<le> 500) [expired_row, session_S1]
   \<and> fst (recall False 500 ''S0'' [expired_row, session_S1]) = None
   \<and> snd (recall False 500 ''S0'' [expired_row, session_S1]) = [expired_row, session_S1]
   \<and> cleanup_expired_sessions False 500 [expired_row, session_S1] = (0, [expired_row, session_S1])
   \<and> cleanup_expired_sessions False 501 [expired_row, session_S1] = (1, [session_S1])"
  using C9_recall_and_sweep[of "[expired_row, session_S1]" "''S0''" 500 False]
        C9_recall_and_sweep[of "[expired_row, session_S1]" "''S0''" 501 False]
  by (simp add: expired_row_def session_S1_def cleanup_expired_sessions_def)

theorem C10_forget_reports_success_witness:
  "list_all (\<lambda>r. session_id r \<noteq> ''S9'') [session_S1]
   \<and> forget False ''S9'' [session_S1] = (True, [session_S1])
   \<and> forget False ''S1'' [session_S1] = (True, [])
   \<and> fst (recall False 0 ''S1'' (snd (forget False ''S1'' [session_S1]))) = None"
  using C10_forget_reports_success[of "''S9''" "[session_S1]" False 0]
        C10_forget_reports_success[of "''S1''" "[session_S1]" False 0]
  by (simp add: session_S1_def forget_def)

theorem C7_remember_field_preserving_merge_witness:
  "find (\<lambda>r. session_id r = ''S1'') [session_S1] = Some session_S1
   \<and> (\<exists>r1. find (\<lambda>r. session_id r = ''S1'')
              (snd (remember config_template False 10 ''S1'' (Some ''PT_0002'') None None [session_S1]))
            = Some r1
          \<and> row_clinician_id r1 = Some ''DR_0001''
          \<and> last_patient_id r1 = Some ''PT_0002''
          \<and> last_action r1 = Some ''access'')"
  using C7_remember_field_preserving_merge[where cfg = config_template and sid = "''S1''"
          and tbl = "[session_S1]" and now = 10 and patient = "Some ''PT_0002''"
          and clinician = None and act = None and now_a = 0 and now_b = 10 and pat = None
          and C = "''DR_0001''" and A = "''access''" and P = "''PT_0002''"]
  by (auto simp add: session_S1_def)

theorem C8_history_bounded_fifo_witness:
  "1 \<le> MAX_CONVERSATION_HISTORY config_template
   \<and> list_all (\<lambda>c. call_action c \<noteq> []) (map call_at [1, 2, 3, 4, 5, 6, 7])
   \<and> nat (MAX_CONVERSATION_HISTORY config_template) \<le> length (map call_at [1, 2, 3, 4, 5, 6, 7])
   \<and> stored_history ''S1'' (remember_all config_template ''S1'' (map call_at [1, 2, 3, 4, 5, 6, 7]) [])
       = map (entry_of_call \<circ> call_at) [3, 4, 5, 6, 7]
   \<and> list_all (\<lambda>r. int (length (conversation_history r)) \<le> 5)
        (remember_all config_template ''S1'' (map call_at [1, 2, 3, 4, 5, 6, 7]) [])"
  using C8_history_bounded_fifo[of config_template "map call_at [1, 2, 3, 4, 5, 6, 7]" "[]" "''S1''"]
  by (simp add: config_template_def call_at_def list_all_iff)

section \<open>The execution pipeline\<close>

lemma execute_sequence_length:
  "length (fst (execute_sequence tools tok sq w)) \<le> length sq"
proof (induction sq arbitrary: w)
  case Nil
  then show ?case by simp
next
  case (Cons st rest)
  obtain r st' w1 where rs: "run_step tools tok st w = (r, st', w1)"
    by (cases "run_step tools tok st w") auto
  obtain rs' rest' w2 where ex: "execute_sequence tools tok rest w1 = (rs', rest', w2)"
    by (cases "execute_sequence tools tok rest w1") auto
  from Cons.IH[of w1] rs ex show ?case by simp
qed

lemma execute_sequence_nonempty:
  "sq \<noteq> [] \<Longrightarrow> fst (execute_sequence tools tok sq w) \<noteq> []"
  by (cases sq) (auto split: prod.splits)

lemma execute_sequence_no_earlier_stop:
  "Suc i < length (fst (execute_sequence tools tok sq w)) \<Longrightarrow>
   \<not> stops (tool (sq ! i)) (fst (execute_sequence tools tok sq w) ! i)"
proof (induction sq arbitrary: w i)
  case Nil
  then show ?case by simp
next
  case (Cons st rest)
  obtain r st' w1 where rs: "run_step tools tok st w = (r, st', w1)"
    by (cases "run_step tools tok st w") auto
  show ?case
  proof (cases "stops (tool st) r")
    case True
    with Cons.prems rs show ?thesis by simp
  next
    case False
    obtain rs' rest' w2 where ex: "execute_sequence tools tok rest w1 = (rs', rest', w2)"
      by (cases "execute_sequence tools tok rest w1") auto
    show ?thesis
    proof (cases i)
      case 0
      with False rs ex show ?thesis by simp
    next
      case (Suc j)
      with Cons.prems rs ex False have "Suc j < length (fst (execute_sequence tools tok rest w1))"
        by simp
      from Cons.IH[OF this] Suc rs ex False show ?thesis by simp
    qed
  qed
qed

lemma execute_sequence_early_stop:
  "length (fst (execute_sequence tools tok sq w)) < length sq \<Longrightarrow>
   fst (execute_sequence tools tok sq w) \<noteq> [] \<and>
   stops (tool (sq ! (length (fst (execute_sequence tools tok sq w)) - 1)))
         (last (fst (execute_sequence tools tok sq w)))"
proof (induction sq arbitrary: w)
  case Nil
  then show ?case by simp
next
  case (Cons st rest)
  obtain r st' w1 where rs: "run_step tools tok st w = (r, st', w1)"
    by (cases "run_step tools tok st w") auto
  show ?case
  proof (cases "stops (tool st) r")
    case True
    with rs show ?thesis by simp
  next
    case False
    obtain rs' rest' w2 where ex: "execute_sequence tools tok rest w1 = (rs', rest', w2)"
      by (cases "execute_sequence tools tok rest w1") auto
    from Cons.prems rs ex False have lt: "length (fst (execute_sequence tools tok rest w1)) < length rest"
      by simp
    from Cons.IH[OF lt] rs ex False show ?thesis by (cases rs') auto
  qed
qed

lemma execute_sequence_prefix:
  "fst (execute_sequence tools tok (take (length (fst (execute_sequence tools tok sq w))) sq) w)
     = fst (execute_sequence tools tok sq w)
   \<and> snd (snd (execute_sequence tools tok (take (length (fst (execute_sequence tools tok sq w))) sq) w))
     = snd (snd (execute_sequence tools tok sq w))"
proof (induction sq arbitrary: w)
  case Nil
  then show ?case by simp
next
  case (Cons st rest)
  obtain r st' w1 where rs: "run_step tools tok st w = (r, st', w1)"
    by (cases "run_step tools tok st w") auto
  show ?case
  proof (cases "stops (tool st) r")
    case True
    with rs show ?thesis by simp
  next
    case False
    obtain rs' rest' w2 where ex: "execute_sequence tools tok rest w1 = (rs', rest', w2)"
      by (cases "execute_sequence tools tok rest w1") auto
    from Cons.IH[of w1] rs ex False show ?thesis
      by (auto split: prod.splits)
  qed
qed

lemma execute_sequence_nth:
  "i < length (fst (execute_sequence tools tok sq w)) \<Longrightarrow>
   fst (execute_sequence tools tok sq w) ! i
     = fst (run_step tools tok (sq ! i) (snd (snd (execute_sequence tools tok (take i sq) w))))"
proof (induction sq arbitrary: w i)
  case Nil
  then show ?case by simp
next
  case (Cons st rest)
  obtain r st' w1 where rs: "run_step tools tok st w = (r, st', w1)"
    by (cases "run_step tools tok st w") auto
  show ?case
  proof (cases i)
    case 0
    with rs show ?thesis by (auto split: prod.splits)
  next
    case (Suc j)
    obtain rs' rest' w2 where ex: "execute_sequence tools tok rest w1 = (rs', rest', w2)"
      by (cases "execute_sequence tools tok rest w1") auto
    from Cons.prems Suc rs have ns: "\<not> stops (tool st) r"
      by (auto split: if_splits)
    with Cons.prems Suc rs ex have "j < length (fst (execute_sequence tools tok rest w1))"
      by simp
    from Cons.IH[OF this] Suc rs ex ns show ?thesis
      by (auto split: prod.splits)
  qed
qed

lemma stops_iff:
  "stops name r =
     (\<not> success r \<or> (success r \<and> name = Some ''check_patient_consent_status''
                       \<and> consent_granted r = Some False))"
  by (auto simp: stops_def split: option.splits)


text \<open>
  Claim C2. For every sequence of steps, \<^verbatim>\<open>_execute_sequence\<close> returns at most one result
  per step; no result before the last one is a stopping result; when fewer results than
  steps come back the last one is a stopping result; the \<open>i\<close>-th result is the outcome of
  the \<open>i\<close>-th step, run in the state left by the steps before it; and results and final
  tool state are those of running only the steps that have a result, so no later step was
  invoked. A stopping result is one with \<^verbatim>\<open>success\<close> false, or a successful result of the
  consent check with \<^verbatim>\<open>consent_granted\<close> false.
\<close>

theorem C2_pipeline_stops_at_first_failure:
  "(let rs = fst (execute_sequence tools tok sq w) in
      length rs \<le> length sq
    \<and> (\<forall>i. Suc i < length rs \<longrightarrow> \<not> stops (tool (sq ! i)) (rs ! i))
    \<and> (length rs < length sq \<longrightarrow>
          rs \<noteq> [] \<and> stops (tool (sq ! (length rs - 1))) (last rs))
    \<and> (\<forall>i<length rs.
          rs ! i = fst (run_step tools tok (sq ! i)
                          (snd (snd (execute_sequence tools tok (take i sq) w)))))
    \<and> fst (execute_sequence tools tok (take (length rs) sq) w) = rs
    \<and> snd (snd (execute_sequence tools tok (take (length rs) sq) w))
        = snd (snd (execute_sequence tools tok sq w)))
   \<and> (\<forall>name r. stops name r =
         (\<not> success r
          \<or> (success r \<and> name = Some ''check_patient_consent_status''
              \<and> consent_granted r = Some False)))"
  unfolding Let_def
  using execute_sequence_length[of tools tok sq w]
        execute_sequence_no_earlier_stop[of _ tools tok sq w]
        execute_sequence_early_stop[of tools tok sq w]
        execute_sequence_nth[of _ tools tok sq w]
        execute_sequence_prefix[of tools tok sq w]
        stops_iff
  by blast

theorem C2_pipeline_stops_at_first_failure_witness:
  "length (fst (execute_sequence (register_tools demo_tools) (Some ''T'') (full_sequence ''PT_0002'') []))
     < length (full_sequence ''PT_0002'')
   \<and> Suc 0 < length (fst (execute_sequence (register_tools demo_tools) (Some ''T'')
                            (full_sequence ''PT_0002'') []))
   \<and> fst (execute_sequence (register_tools demo_tools) (Some ''T'') (full_sequence ''PT_0002'') [])
       = [ok_result, ok_result\<lparr> consent_granted := Some False \<rparr>]
   \<and> snd (snd (execute_sequence (register_tools demo_tools) (Some ''T'') (full_sequence ''PT_0002'') []))
       = [''verify_credentials'', ''check_consent'']
   \<and> stops (tool (full_sequence ''PT_0002'' ! 1)) (ok_result\<lparr> consent_granted := Some False \<rparr>)
   \<and> \<not> stops (tool (full_sequence ''PT_0002'' ! 0)) ok_result"
  using C2_pipeline_stops_at_first_failure[of "register_tools demo_tools" "Some ''T''"
          "full_sequence ''PT_0002''" "[]"]
  by (simp add: full_sequence_def verify_step_def consent_step_def fetch_step_def log_step_def
        register_tools_def demo_tools_def demo_tool_def demo_consent_tool_def ok_result_def
        run_step_def stops_def Let_def)

section \<open>The policy gate and the orchestrator\<close>

lemma validate_planned_execution_calls:
  "oracle_calls (snd (validate_planned_execution rep plan ctx fa))
     = oracle_calls fa @ [ValidatePlanned plan ctx]"
  by (simp add: validate_planned_execution_def Let_def split: reply.splits)

lemma validate_planned_execution_retry_count:
  "retry_count (snd (validate_planned_execution rep plan ctx fa)) = retry_count fa"
  by (simp add: validate_planned_execution_def Let_def split: reply.splits)

lemma validate_planned_execution_reply:
  "fst (validate_planned_execution (Reply v) plan ctx fa) = v"
  by (simp add: validate_planned_execution_def Let_def)

lemma validate_execution_result_calls:
  "oracle_calls (snd (validate_execution_result rep sq rs fa))
     = oracle_calls fa @ [ValidateExecuted sq rs]"
  by (simp add: validate_execution_result_def Let_def split: reply.splits)

lemma truthy_list_iff: "truthy_list x = (\<exists>xs. x = Some xs \<and> xs \<noteq> [])"
  by (cases x) auto

lemma handle_retry_cases:
  "(case handle_retry cfg rep sq v fa of
      (info, fa') \<Rightarrow>
        (corrected_request info \<noteq> None \<longrightarrow>
           truthy_list (corrected_request info)
           \<and> severity v \<noteq> Some ''critical''
           \<and> retry_count fa < FILTER_MAX_RETRIES cfg
           \<and> retry_count fa' = retry_count fa + 1
           \<and> oracle_calls fa' = oracle_calls fa @ [Correct sq v])
      \<and> (corrected_request info = None \<longrightarrow> retry_count fa' = retry_count fa)
      \<and> violation_count fa' = violation_count fa)"
  by (auto simp: handle_retry_def generate_corrected_sequence_def refusal_def Let_def
      truthy_list_iff split: reply.splits option.splits prod.splits)

lemma obtain_corrected_calls:
  assumes "fst (obtain_corrected cfg env plan v fa) = Some cs" and "cs \<noteq> []"
  shows "oracle_calls (snd (obtain_corrected cfg env plan v fa))
         = oracle_calls fa @ (if truthy_list (corrected_sequence v) then [] else [Correct plan v])"
proof (cases "truthy_list (corrected_sequence v)")
  case True
  then show ?thesis by (simp add: obtain_corrected_def)
next
  case False
  obtain info fa' where h: "handle_retry cfg (correct_reply env) plan v fa = (info, fa')"
    by (cases "handle_retry cfg (correct_reply env) plan v fa") auto
  with assms False have "corrected_request info \<noteq> None"
    by (simp add: obtain_corrected_def)
  with handle_retry_cases[where cfg = cfg and rep = "correct_reply env" and sq = plan
         and v = v and fa = fa] h
  have "oracle_calls fa' = oracle_calls fa @ [Correct plan v]" by simp
  with h False show ?thesis by (simp add: obtain_corrected_def)
qed

lemma root_handle_retry_executes:
  assumes "FILTER_REQUIRE_USER_CONSENT cfg \<longrightarrow> user_confirms env"
    and "fst (obtain_corrected cfg env plan v (filter_state w)) = Some cs" and "cs \<noteq> []"
  shows "root_handle_retry cfg tools env plan v ctx w =
           (format_response (current_session_token w)
              (fst (snd (execute_sequence tools (current_session_token w) cs (tool_state w))))
              (fst (execute_sequence tools (current_session_token w) cs (tool_state w)))
              retry_marker,
            w\<lparr> filter_state := snd (obtain_corrected cfg env plan v (filter_state w)),
               tool_state := snd (snd (execute_sequence tools (current_session_token w) cs (tool_state w))) \<rparr>)"
  using assms
  by (cases "obtain_corrected cfg env plan v (filter_state w)")
     (auto simp: root_handle_retry_def Let_def split: prod.splits)

lemma process_request_rejected:
  assumes "token_result env = Some tok" and "plan_reply env = Reply plan"
    and "\<forall>st\<in>set plan. tool st \<noteq> None"
    and "validate_reply env = Reply v" and "valid v \<noteq> Some True"
  shows "process_request cfg tools env q clinician patient extra w =
           (let ids = recall_context cfg env tok patient clinician (memory w);
                ctx = request_context q (snd ids) (fst ids) (Some tok) extra;
                w2 = w\<lparr> current_session_token := Some tok,
                        filter_state := snd (validate_planned_execution (Reply v) plan ctx (filter_state w)) \<rparr>
            in if allow_retry v = Some True
               then root_handle_retry cfg tools env plan v ctx w2
               else (error_response (Some tok) (''Policy violation: '' @ str_of (explanation v)) (Some v), w2))"
proof -
  have nt: "\<not> (\<exists>st\<in>set plan. tool st = None)" using assms(3) by blast
  show ?thesis
    using assms(1,2,4,5) nt
    by (auto simp add: process_request_def Let_def validate_planned_execution_def split: prod.splits)
qed

lemma process_request_accepted:
  assumes "token_result env = Some tok" and "plan_reply env = Reply plan"
    and "\<forall>st\<in>set plan. tool st \<noteq> None"
    and "validate_reply env = Reply v" and "valid v = Some True"
  shows "process_request cfg tools env q clinician patient extra w =
           (let ids = recall_context cfg env tok patient clinician (memory w);
                ctx = request_context q (snd ids) (fst ids) (Some tok) extra;
                fa = snd (validate_planned_execution (Reply v) plan ctx (filter_state w));
                ex = execute_sequence tools (Some tok) plan (tool_state w);
                pv = validate_execution_result (post_reply env) (fst (snd ex)) (fst ex) fa
            in (format_response (Some tok) (fst (snd ex)) (fst ex) (fst pv),
                w\<lparr> current_session_token := Some tok,
                   filter_state := snd pv,
                   tool_state := snd (snd ex),
                   memory := (if MEMORY_ENABLED cfg \<and> truthy_str (fst ids) \<and> truthy_str (snd ids)
                              then snd (remember cfg (remember_raises env) (remember_now env) tok
                                          (fst ids) (snd ids) (Some q) (memory w))
                              else memory w) \<rparr>))"
proof -
  have nt: "\<not> (\<exists>st\<in>set plan. tool st = None)" using assms(3) by blast
  show ?thesis
    using assms(1,2,4,5) nt
    by (auto simp add: process_request_def Let_def validate_planned_execution_def split: prod.splits)
qed

lemma process_request_retry_path:
  assumes "token_result env = Some tok" and "plan_reply env = Reply plan"
    and "\<forall>st\<in>set plan. tool st \<noteq> None"
    and "validate_reply env = Reply v" and "valid v \<noteq> Some True"
    and "allow_retry v = Some True"
    and "FILTER_REQUIRE_USER_CONSENT cfg \<longrightarrow> user_confirms env"
    and "ids = recall_context cfg env tok patient clinician (memory w)"
    and "ctx = request_context q (snd ids) (fst ids) (Some tok) extra"
    and "fa = snd (validate_planned_execution (Reply v) plan ctx (filter_state w))"
    and "fst (obtain_corrected cfg env plan v fa) = Some cs" and "cs \<noteq> []"
    and "ex = execute_sequence tools (Some tok) cs (tool_state w)"
  shows "process_request cfg tools env q clinician patient extra w =
           (format_response (Some tok) (fst (snd ex)) (fst ex) retry_marker,
            w\<lparr> current_session_token := Some tok,
               filter_state := snd (obtain_corrected cfg env plan v fa),
               tool_state := snd (snd ex) \<rparr>)"
    and "oracle_calls (snd (obtain_corrected cfg env plan v fa))
         = oracle_calls (filter_state w) @ [ValidatePlanned plan ctx]
           @ (if truthy_list (corrected_sequence v) then [] else [Correct plan v])"
proof -
  let ?wv = "w\<lparr> current_session_token := Some tok, filter_state := fa \<rparr>"
  have "process_request cfg tools env q clinician patient extra w
        = root_handle_retry cfg tools env plan v ctx ?wv"
    using process_request_rejected[OF assms(1) assms(2) assms(3) assms(4) assms(5), of cfg tools q clinician patient extra w]
      assms(6,8,9,10) by (simp add: Let_def)
  also have "\<dots> = (format_response (Some tok) (fst (snd ex)) (fst ex) retry_marker,
            ?wv\<lparr> filter_state := snd (obtain_corrected cfg env plan v fa),
                 tool_state := snd (snd ex) \<rparr>)"
    using root_handle_retry_executes[OF assms(7), of plan v ?wv cs tools ctx] assms(11,12,13)
    by simp
  finally show "process_request cfg tools env q clinician patient extra w =
           (format_response (Some tok) (fst (snd ex)) (fst ex) retry_marker,
            w\<lparr> current_session_token := Some tok,
               filter_state := snd (obtain_corrected cfg env plan v fa),
               tool_state := snd (snd ex) \<rparr>)"
    by simp
  show "oracle_calls (snd (obtain_corrected cfg env plan v fa))
         = oracle_calls (filter_state w) @ [ValidatePlanned plan ctx]
           @ (if truthy_list (corrected_sequence v) then [] else [Correct plan v])"
    using obtain_corrected_calls[OF assms(11,12)] assms(10)
    by (simp add: validate_planned_execution_calls)
qed

text \<open>
  Claim C4. Take a request whose plan the filter agent rejects with \<^verbatim>\<open>allow_retry\<close> set,
  with the user's consent where the configuration asks for it, and for which a non-empty
  corrected sequence is obtained (from the verdict itself, or else from the filter agent's
  \<^verbatim>\<open>handle_retry\<close>). Then the response is the formatted outcome of one run of
  \<^verbatim>\<open>_execute_sequence\<close> on the corrected sequence, the tools are left as that one run leaves
  them, and the only prompts sent to the filter agent's model are the validation of the
  original plan and, when the verdict carried no correction, one correction request: the
  corrected sequence is never validated, and nothing more is asked whatever its results.
\<close>

theorem C4_corrected_sequence_trusted_once:
  assumes "token_result env = Some tok" and "plan_reply env = Reply plan"
    and "\<forall>st\<in>set plan. tool st \<noteq> None"
    and "validate_reply env = Reply v" and "valid v \<noteq> Some True"
    and "allow_retry v = Some True"
    and "FILTER_REQUIRE_USER_CONSENT cfg \<longrightarrow> user_confirms env"
  shows "let ids = recall_context cfg env tok patient clinician (memory w);
             ctx = request_context q (snd ids) (fst ids) (Some tok) extra;
             fa = snd (validate_planned_execution (Reply v) plan ctx (filter_state w));
             out = process_request cfg tools env q clinician patient extra w
         in \<forall>cs. fst (obtain_corrected cfg env plan v fa) = Some cs \<and> cs \<noteq> [] \<longrightarrow>
              fst out = format_response (Some tok)
                          (fst (snd (execute_sequence tools (Some tok) cs (tool_state w))))
                          (fst (execute_sequence tools (Some tok) cs (tool_state w)))
                          retry_marker
              \<and> tool_state (snd out)
                  = snd (snd (execute_sequence tools (Some tok) cs (tool_state w)))
              \<and> oracle_calls (filter_state (snd out))
                  = oracle_calls (filter_state w) @ [ValidatePlanned plan ctx]
                    @ (if truthy_list (corrected_sequence v) then [] else [Correct plan v])
              \<and> memory (snd out) = memory w"
  unfolding Let_def
proof (intro allI impI)
  fix cs
  let ?ids = "recall_context cfg env tok patient clinician (memory w)"
  let ?ctx = "request_context q (snd ?ids) (fst ?ids) (Some tok) extra"
  let ?fa = "snd (validate_planned_execution (Reply v) plan ?ctx (filter_state w))"
  assume c: "fst (obtain_corrected cfg env plan v ?fa) = Some cs \<and> cs \<noteq> []"
  note p = process_request_retry_path[OF assms refl refl refl conjunct1[OF c] conjunct2[OF c] refl]
  show "fst (process_request cfg tools env q clinician patient extra w)
          = format_response (Some tok)
              (fst (snd (execute_sequence tools (Some tok) cs (tool_state w))))
              (fst (execute_sequence tools (Some tok) cs (tool_state w))) retry_marker
        \<and> tool_state (snd (process_request cfg tools env q clinician patient extra w))
            = snd (snd (execute_sequence tools (Some tok) cs (tool_state w)))
        \<and> oracle_calls (filter_state (snd (process_request cfg tools env q clinician patient extra w)))
            = oracle_calls (filter_state w) @ [ValidatePlanned plan ?ctx]
              @ (if truthy_list (corrected_sequence v) then [] else [Correct plan v])
        \<and> memory (snd (process_request cfg tools env q clinician patient extra w)) = memory w"
    using p(2) by (simp add: p(1))
qed
lemmas demo_defs = skipping_request_def continuing_request_def process_request_def
  root_handle_retry_def obtain_corrected_def handle_retry_def generate_corrected_sequence_def
  validate_planned_execution_def validate_execution_result_def recall_context_def
  request_context_def format_response_def error_response_def retry_marker_def
  empty_dict_def violation_def passing_def demo_env_def demo_world_def
  config_template_def register_tools_def demo_tools_def demo_tool_def demo_consent_tool_def
  ok_result_def verify_step_def consent_step_def fetch_step_def log_step_def
  full_sequence_def logged_sequence_def full_results_def full_trace_def skipping_context_def
  run_step_def stops_def failed_result_def new_filter_agent_def recall_def remember_def
  session_S1_def refusal_def Let_def microseconds_per_hour_def

text \<open>
  Claim C1 at a failing input. The verdict has severity \<^verbatim>\<open>critical\<close>, \<^verbatim>\<open>allow_retry\<close> true
  and a corrected sequence of its own, and the user confirms. \<^verbatim>\<open>process_request\<close> executes
  the corrected sequence and reports success, while the filter agent's \<^verbatim>\<open>handle_retry\<close>,
  the only place that looks at the severity, would have refused the same verdict.
\<close>

theorem C1_critical_violation_still_executed:
  "severity (violation ''critical'' (Some (full_sequence ''PT_0001''))) = Some ''critical''
   \<and> fst (skipping_request (violation ''critical'' (Some (full_sequence ''PT_0001''))) demo_world)
       = Completed True (Some ''HIPAA_A_20250101000000'')
           (logged_sequence ''PT_0001'' ''HIPAA_A_20250101000000'') full_results retry_marker
           ''Request completed''
   \<and> tool_state (snd (skipping_request (violation ''critical'' (Some (full_sequence ''PT_0001'')))
                         demo_world)) = full_trace
   \<and> fst (handle_retry config_template (Reply (Some (full_sequence ''PT_0001'')))
            [fetch_step ''PT_0001''] (violation ''critical'' (Some (full_sequence ''PT_0001'')))
            new_filter_agent)
       = refusal ''Critical violations cannot be retried. Requires admin review.''"
  by (simp add: demo_defs)

text \<open>
  Claim C5, as stated, fails after a retry: here the corrected sequence is executed (four
  results, four tools invoked) and the only prompt the filter agent's model ever receives
  is the validation of the original plan; \<^verbatim>\<open>validate_execution_result\<close> is not called.
\<close>

theorem C5_counterexample_retry_skips_post_validation:
  "results (fst (skipping_request (violation ''error'' (Some (full_sequence ''PT_0001''))) demo_world))
     = full_results
   \<and> tool_state (snd (skipping_request (violation ''error'' (Some (full_sequence ''PT_0001'')))
                         demo_world)) = full_trace
   \<and> oracle_calls (filter_state (snd (skipping_request
           (violation ''error'' (Some (full_sequence ''PT_0001''))) demo_world)))
       = [ValidatePlanned [fetch_step ''PT_0001''] skipping_context]"
  by (simp add: demo_defs)

text \<open>
  Claim C6 at a failing input. The memory holds a live row for the caller's session
  \<^verbatim>\<open>S1\<close>, and the caller passes that id in the context dictionary. A request without ids
  is planned and validated with both ids still missing, because the recall is keyed by the
  token minted for this request; a request with both ids stores them in a new row keyed by
  that token and leaves the row of \<^verbatim>\<open>S1\<close> as it was.
\<close>

theorem C6_memory_keyed_by_trace_token:
  "fst (recall False 1000 ''S1'' [session_S1]) = Some session_S1
   \<and> oracle_calls (filter_state (snd (continuing_request None None
                      (demo_world\<lparr> memory := [session_S1] \<rparr>))))
       = [ValidatePlanned (full_sequence ''PT_0001'')
            [(''user_query'', PStr ''fetch the record''), (''clinician_id'', PNone),
             (''patient_id'', PNone), (''session_token'', PStr ''HIPAA_B_20250101000000''),
             (''session_id'', PStr ''S1'')],
          ValidateExecuted (logged_sequence ''PT_0001'' ''HIPAA_B_20250101000000'') full_results]
   \<and> map session_id (memory (snd (continuing_request (Some ''DR_0001'') (Some ''PT_0001'')
                                     (demo_world\<lparr> memory := [session_S1] \<rparr>))))
       = [''S1'', ''HIPAA_B_20250101000000'']
   \<and> stored_history ''S1'' (memory (snd (continuing_request (Some ''DR_0001'') (Some ''PT_0001'')
                                     (demo_world\<lparr> memory := [session_S1] \<rparr>))))
       = conversation_history session_S1"
  by (simp add: demo_defs stored_history_def)

lemma str_int_3: "str_int 3 = ''3''"
  by code_simp

text \<open>
  Claim C3, as stated, fails: on a fresh filter agent the retry of one caller is granted,
  and after three retries granted to another caller the same retry is refused for the
  exhausted budget.
\<close>

theorem C3_counterexample_shared_retry_budget:
  "corrected_request (fst (other_retry new_filter_agent)) = Some (full_sequence ''PT_0003'')
   \<and> fst (other_retry after_three_retries)
       = refusal ''Maximum retry attempts (3) exceeded.''"
  by (simp add: other_retry_def after_three_retries_def granted_retry_def str_int_3 demo_defs)

lemma recall_context_post_reply:
  "recall_context cfg (env\<lparr> post_reply := rep \<rparr>) tok patient clinician mem
   = recall_context cfg env tok patient clinician mem"
  by (auto simp: recall_context_def)

lemma format_response_sel:
  "results (format_response tok sq rs v) = rs"
  "executed_sequence (format_response tok sq rs v) = sq"
  "resp_validation (format_response tok sq rs v) = v"
  by (simp_all add: format_response_def Let_def)

lemma process_request_accepted_effects:
  assumes "token_result env = Some tok" and "plan_reply env = Reply plan"
    and "\<forall>st\<in>set plan. tool st \<noteq> None"
    and "validate_reply env = Reply v" and "valid v = Some True"
    and "ids = recall_context cfg env tok patient clinician (memory w)"
    and "ctx = request_context q (snd ids) (fst ids) (Some tok) extra"
    and "fa = snd (validate_planned_execution (Reply v) plan ctx (filter_state w))"
    and "ex = execute_sequence tools (Some tok) plan (tool_state w)"
    and "out = process_request cfg tools (env\<lparr> post_reply := rep \<rparr>) q clinician patient extra w"
  shows "fst out = format_response (Some tok) (fst (snd ex)) (fst ex)
                     (fst (validate_execution_result rep (fst (snd ex)) (fst ex) fa))"
    and "tool_state (snd out) = snd (snd ex)"
    and "oracle_calls (filter_state (snd out))
         = oracle_calls (filter_state w)
           @ [ValidatePlanned plan ctx, ValidateExecuted (fst (snd ex)) (fst ex)]"
    and "memory (snd out)
         = (if MEMORY_ENABLED cfg \<and> truthy_str (fst ids) \<and> truthy_str (snd ids)
            then snd (remember cfg (remember_raises env) (remember_now env) tok
                        (fst ids) (snd ids) (Some q) (memory w))
            else memory w)"
proof -
  have e: "token_result (env\<lparr> post_reply := rep \<rparr>) = Some tok"
          "plan_reply (env\<lparr> post_reply := rep \<rparr>) = Reply plan"
          "validate_reply (env\<lparr> post_reply := rep \<rparr>) = Reply v"
    using assms(1,2,4) by simp_all
  note p = process_request_accepted[OF e(1) e(2) assms(3) e(3) assms(5),
             of cfg tools q clinician patient extra w]
  show "fst out = format_response (Some tok) (fst (snd ex)) (fst ex)
                     (fst (validate_execution_result rep (fst (snd ex)) (fst ex) fa))"
    using p assms(6-10) by (simp add: Let_def recall_context_post_reply)
  show "tool_state (snd out) = snd (snd ex)"
    using p assms(6-10) by (simp add: Let_def recall_context_post_reply)
  show "oracle_calls (filter_state (snd out))
         = oracle_calls (filter_state w)
           @ [ValidatePlanned plan ctx, ValidateExecuted (fst (snd ex)) (fst ex)]"
    using p assms(6-10)
    by (simp add: Let_def recall_context_post_reply validate_execution_result_calls
          validate_planned_execution_calls)
  show "memory (snd out)
         = (if MEMORY_ENABLED cfg \<and> truthy_str (fst ids) \<and> truthy_str (snd ids)
            then snd (remember cfg (remember_raises env) (remember_now env) tok
                        (fst ids) (snd ids) (Some q) (memory w))
            else memory w)"
    using p assms(6-10) by (simp add: Let_def recall_context_post_reply)
qed

text \<open>
  Claim C5, amended. When the plan passes pre-execution validation, the post-execution
  validation is called once, after the execution and on its results, whether the execution
  ran to the end or stopped early; its verdict is returned in the response; and the
  results, the executed sequence, the state the tools are left in and the memory update are
  the same whatever that verdict is. After a retry the corrected sequence is executed
  without a post-execution validation, and the response carries the fixed verdict
  \<^verbatim>\<open>{"valid": True, "retry": True}\<close>.
\<close>

theorem C5_post_validation_on_accepted_plan_only:
  assumes "token_result env = Some tok" and "plan_reply env = Reply plan"
    and "\<forall>st\<in>set plan. tool st \<noteq> None"
    and "validate_reply env = Reply v"
  shows "let ids = recall_context cfg env tok patient clinician (memory w);
             ctx = request_context q (snd ids) (fst ids) (Some tok) extra;
             fa = snd (validate_planned_execution (Reply v) plan ctx (filter_state w));
             out = process_request cfg tools env q clinician patient extra w
         in (valid v = Some True \<longrightarrow>
               (let ex = execute_sequence tools (Some tok) plan (tool_state w);
                    pv = fst (validate_execution_result (post_reply env) (fst (snd ex)) (fst ex) fa)
                in fst out = format_response (Some tok) (fst (snd ex)) (fst ex) pv
                 \<and> resp_validation (fst out) = pv
                 \<and> results (fst out) = fst ex
                 \<and> tool_state (snd out) = snd (snd ex)
                 \<and> oracle_calls (filter_state (snd out))
                     = oracle_calls (filter_state w)
                       @ [ValidatePlanned plan ctx, ValidateExecuted (fst (snd ex)) (fst ex)]
                 \<and> (\<forall>rep. let alt = process_request cfg tools (env\<lparr> post_reply := rep \<rparr>)
                                        q clinician patient extra w
                          in results (fst alt) = results (fst out)
                           \<and> executed_sequence (fst alt) = executed_sequence (fst out)
                           \<and> tool_state (snd alt) = tool_state (snd out)
                           \<and> memory (snd alt) = memory (snd out))))
          \<and> (valid v \<noteq> Some True \<and> allow_retry v = Some True
              \<and> (FILTER_REQUIRE_USER_CONSENT cfg \<longrightarrow> user_confirms env) \<longrightarrow>
               (\<forall>cs. fst (obtain_corrected cfg env plan v fa) = Some cs \<and> cs \<noteq> [] \<longrightarrow>
                  resp_validation (fst out) = retry_marker
                  \<and> results (fst out) = fst (execute_sequence tools (Some tok) cs (tool_state w))
                  \<and> tool_state (snd out)
                      = snd (snd (execute_sequence tools (Some tok) cs (tool_state w)))
                  \<and> oracle_calls (filter_state (snd out))
                      = oracle_calls (filter_state w) @ [ValidatePlanned plan ctx]
                        @ (if truthy_list (corrected_sequence v) then [] else [Correct plan v])))"
  unfolding Let_def
proof (intro conjI impI allI)
  let ?ids = "recall_context cfg env tok patient clinician (memory w)"
  let ?ctx = "request_context q (snd ?ids) (fst ?ids) (Some tok) extra"
  let ?fa = "snd (validate_planned_execution (Reply v) plan ?ctx (filter_state w))"
  let ?ex = "execute_sequence tools (Some tok) plan (tool_state w)"
  let ?out = "process_request cfg tools env q clinician patient extra w"
  assume ok: "valid v = Some True"
  have same: "env\<lparr> post_reply := post_reply env \<rparr> = env" by simp
  note a = process_request_accepted_effects[OF assms ok refl refl refl refl refl,
             where rep = "post_reply env" and tools = tools and w = w, unfolded same]
  show "fst ?out = format_response (Some tok) (fst (snd ?ex)) (fst ?ex)
          (fst (validate_execution_result (post_reply env) (fst (snd ?ex)) (fst ?ex) ?fa))"
    by (rule a(1))
  then show "resp_validation (fst ?out)
          = fst (validate_execution_result (post_reply env) (fst (snd ?ex)) (fst ?ex) ?fa)"
    by (simp add: format_response_sel)
  show "results (fst ?out) = fst ?ex"
    by (simp add: a(1) format_response_sel)
  show "tool_state (snd ?out) = snd (snd ?ex)"
    by (rule a(2))
  show "oracle_calls (filter_state (snd ?out))
        = oracle_calls (filter_state w)
          @ [ValidatePlanned plan ?ctx, ValidateExecuted (fst (snd ?ex)) (fst ?ex)]"
    by (rule a(3))
  fix rep
  note b = process_request_accepted_effects[OF assms ok refl refl refl refl refl,
             where rep = rep and tools = tools and w = w]
  show "results (fst (process_request cfg tools (env\<lparr> post_reply := rep \<rparr>) q clinician patient extra w))
          = results (fst ?out)"
    by (simp add: a(1) b(1) format_response_sel)
  show "executed_sequence (fst (process_request cfg tools (env\<lparr> post_reply := rep \<rparr>) q clinician patient extra w))
          = executed_sequence (fst ?out)"
    by (simp add: a(1) b(1) format_response_sel)
  show "tool_state (snd (process_request cfg tools (env\<lparr> post_reply := rep \<rparr>) q clinician patient extra w))
          = tool_state (snd ?out)"
    by (simp add: a(2) b(2))
  show "memory (snd (process_request cfg tools (env\<lparr> post_reply := rep \<rparr>) q clinician patient extra w))
          = memory (snd ?out)"
    by (simp add: a(4) b(4))
next
  fix cs
  let ?ids = "recall_context cfg env tok patient clinician (memory w)"
  let ?ctx = "request_context q (snd ?ids) (fst ?ids) (Some tok) extra"
  let ?fa = "snd (validate_planned_execution (Reply v) plan ?ctx (filter_state w))"
  let ?out = "process_request cfg tools env q clinician patient extra w"
  assume r: "valid v \<noteq> Some True \<and> allow_retry v = Some True
              \<and> (FILTER_REQUIRE_USER_CONSENT cfg \<longrightarrow> user_confirms env)"
    and c: "fst (obtain_corrected cfg env plan v ?fa) = Some cs \<and> cs \<noteq> []"
  from r have r1: "valid v \<noteq> Some True" and r2: "allow_retry v = Some True"
    and r3: "FILTER_REQUIRE_USER_CONSENT cfg \<longrightarrow> user_confirms env" by simp_all
  note p = process_request_retry_path[OF assms r1 r2 r3 refl refl refl
             conjunct1[OF c] conjunct2[OF c] refl]
  show "resp_validation (fst ?out) = retry_marker"
    by (simp add: p(1) format_response_sel)
  show "results (fst ?out) = fst (execute_sequence tools (Some tok) cs (tool_state w))"
    by (simp add: p(1) format_response_sel)
  show "tool_state (snd ?out) = snd (snd (execute_sequence tools (Some tok) cs (tool_state w)))"
    by (simp add: p(1))
  show "oracle_calls (filter_state (snd ?out))
        = oracle_calls (filter_state w) @ [ValidatePlanned plan ?ctx]
          @ (if truthy_list (corrected_sequence v) then [] else [Correct plan v])"
    using p(2) by (simp add: p(1))
qed

lemma handle_retry_exhausted:
  "FILTER_MAX_RETRIES cfg \<le> retry_count fa \<Longrightarrow>
   corrected_request (fst (handle_retry cfg rep sq v fa)) = None
   \<and> ri_allow_retry (fst (handle_retry cfg rep sq v fa)) = Some False
   \<and> snd (handle_retry cfg rep sq v fa) = fa"
  by (simp add: handle_retry_def refusal_def)

text \<open>
  Claim C3, amended. The retry counter is one counter of the filter agent that
  \<^verbatim>\<open>get_filter_agent\<close> hands to every caller. A \<^verbatim>\<open>handle_retry\<close> that returns a corrected
  sequence found the counter below \<^verbatim>\<open>FILTER_MAX_RETRIES\<close> and raises it by one, whichever
  request it serves; one that returns none leaves it as it was; once the counter has
  reached \<^verbatim>\<open>FILTER_MAX_RETRIES\<close> every call is refused and changes nothing; and
  \<^verbatim>\<open>reset_counters\<close> sets it back to zero.
\<close>

theorem C3_retry_counter_shared_by_all_requests:
  "(let out = handle_retry cfg rep sq v fa
    in (corrected_request (fst out) \<noteq> None \<longrightarrow>
          retry_count fa < FILTER_MAX_RETRIES cfg
          \<and> retry_count (snd out) = retry_count fa + 1)
     \<and> (corrected_request (fst out) = None \<longrightarrow> retry_count (snd out) = retry_count fa)
     \<and> (FILTER_MAX_RETRIES cfg \<le> retry_count fa \<longrightarrow>
          corrected_request (fst out) = None
          \<and> ri_allow_retry (fst out) = Some False
          \<and> snd out = fa))
   \<and> retry_count (reset_counters fa) = 0
   \<and> get_filter_agent (Some fa) = (fa, Some fa)"
proof (intro conjI)
  show "let out = handle_retry cfg rep sq v fa
    in (corrected_request (fst out) \<noteq> None \<longrightarrow>
          retry_count fa < FILTER_MAX_RETRIES cfg
          \<and> retry_count (snd out) = retry_count fa + 1)
     \<and> (corrected_request (fst out) = None \<longrightarrow> retry_count (snd out) = retry_count fa)
     \<and> (FILTER_MAX_RETRIES cfg \<le> retry_count fa \<longrightarrow>
          corrected_request (fst out) = None
          \<and> ri_allow_retry (fst out) = Some False
          \<and> snd out = fa)"
    unfolding Let_def
    using handle_retry_cases[where cfg = cfg and rep = rep and sq = sq and v = v and fa = fa]
          handle_retry_exhausted[of cfg fa rep sq v]
    by (cases "handle_retry cfg rep sq v fa") auto
  show "retry_count (reset_counters fa) = 0" by (simp add: reset_counters_def)
  show "get_filter_agent (Some fa) = (fa, Some fa)" by (simp add: get_filter_agent_def)
qed


theorem C3_retry_counter_shared_by_all_requests_witness:
  "FILTER_MAX_RETRIES config_template \<le> retry_count after_three_retries
   \<and> corrected_request (fst (other_retry after_three_retries)) = None
   \<and> ri_allow_retry (fst (other_retry after_three_retries)) = Some False
   \<and> snd (other_retry after_three_retries) = after_three_retries
   \<and> corrected_request (fst (granted_retry new_filter_agent)) \<noteq> None
   \<and> retry_count (snd (granted_retry new_filter_agent)) = retry_count new_filter_agent + 1"
  using C3_retry_counter_shared_by_all_requests[where cfg = config_template
          and rep = "Reply (Some (full_sequence ''PT_0003''))" and sq = "[fetch_step ''PT_0003'']"
          and v = "violation ''warning'' None" and fa = after_three_retries]
        C3_retry_counter_shared_by_all_requests[where cfg = config_template
          and rep = "Reply (Some (full_sequence ''PT_0001''))" and sq = "[fetch_step ''PT_0001'']"
          and v = "violation ''error'' None" and fa = new_filter_agent]
  by (simp add: other_retry_def granted_retry_def after_three_retries_def str_int_3 demo_defs)

theorem C4_corrected_sequence_trusted_once_witness:
  "token_result (demo_env ''HIPAA_A_20250101000000'' [fetch_step ''PT_0001''] (violation ''error'' None))
     = Some ''HIPAA_A_20250101000000''
   \<and> plan_reply (demo_env ''HIPAA_A_20250101000000'' [fetch_step ''PT_0001''] (violation ''error'' None))
     = Reply [fetch_step ''PT_0001'']
   \<and> list_all (\<lambda>st. tool st \<noteq> None) [fetch_step ''PT_0001'']
   \<and> validate_reply (demo_env ''HIPAA_A_20250101000000'' [fetch_step ''PT_0001''] (violation ''error'' None))
     = Reply (violation ''error'' None)
   \<and> valid (violation ''error'' None) \<noteq> Some True
   \<and> allow_retry (violation ''error'' None) = Some True
   \<and> FILTER_REQUIRE_USER_CONSENT config_template
   \<and> user_confirms (demo_env ''HIPAA_A_20250101000000'' [fetch_step ''PT_0001''] (violation ''error'' None))
   \<and> fst (obtain_corrected config_template
             (demo_env ''HIPAA_A_20250101000000'' [fetch_step ''PT_0001''] (violation ''error'' None))
             [fetch_step ''PT_0001''] (violation ''error'' None)
             (snd (validate_planned_execution (Reply (violation ''error'' None))
                     [fetch_step ''PT_0001''] skipping_context new_filter_agent)))
       = Some (full_sequence ''PT_0001'')
   \<and> results (fst (skipping_request (violation ''error'' None) demo_world)) = full_results
   \<and> tool_state (snd (skipping_request (violation ''error'' None) demo_world)) = full_trace
   \<and> oracle_calls (filter_state (snd (skipping_request (violation ''error'' None) demo_world)))
       = [ValidatePlanned [fetch_step ''PT_0001''] skipping_context,
          Correct [fetch_step ''PT_0001''] (violation ''error'' None)]"
  using C4_corrected_sequence_trusted_once[where cfg = config_template
          and env = "demo_env ''HIPAA_A_20250101000000'' [fetch_step ''PT_0001''] (violation ''error'' None)"
          and tok = "''HIPAA_A_20250101000000''" and plan = "[fetch_step ''PT_0001'']"
          and v = "violation ''error'' None" and tools = "register_tools demo_tools"
          and q = "''fetch the record''" and clinician = "Some ''DR_0001''"
          and patient = "Some ''PT_0001''" and extra = None and w = demo_world]
  by (simp add: demo_defs)

theorem C5_post_validation_on_accepted_plan_only_witness:
  "token_result (demo_env ''HIPAA_B_20250101000000'' (full_sequence ''PT_0001'') passing)
     = Some ''HIPAA_B_20250101000000''
   \<and> plan_reply (demo_env ''HIPAA_B_20250101000000'' (full_sequence ''PT_0001'') passing)
     = Reply (full_sequence ''PT_0001'')
   \<and> list_all (\<lambda>st. tool st \<noteq> None) (full_sequence ''PT_0001'')
   \<and> validate_reply (demo_env ''HIPAA_B_20250101000000'' (full_sequence ''PT_0001'') passing)
     = Reply passing
   \<and> valid passing = Some True
   \<and> resp_validation (fst (continuing_request (Some ''DR_0001'') (Some ''PT_0001'') demo_world))
       = passing
   \<and> results (fst (continuing_request (Some ''DR_0001'') (Some ''PT_0001'') demo_world))
       = full_results
   \<and> tool_state (snd (continuing_request (Some ''DR_0001'') (Some ''PT_0001'') demo_world))
       = full_trace
   \<and> valid (violation ''warning'' (Some (full_sequence ''PT_0001''))) \<noteq> Some True
   \<and> allow_retry (violation ''warning'' (Some (full_sequence ''PT_0001''))) = Some True
   \<and> user_confirms (demo_env ''HIPAA_A_20250101000000'' [fetch_step ''PT_0001'']
                        (violation ''warning'' (Some (full_sequence ''PT_0001''))))
   \<and> resp_validation (fst (skipping_request (violation ''warning'' (Some (full_sequence ''PT_0001'')))
                              demo_world)) = retry_marker
   \<and> oracle_calls (filter_state (snd (skipping_request
           (violation ''warning'' (Some (full_sequence ''PT_0001''))) demo_world)))
       = [ValidatePlanned [fetch_step ''PT_0001''] skipping_context]"
  using C5_post_validation_on_accepted_plan_only[where cfg = config_template
          and env = "demo_env ''HIPAA_B_20250101000000'' (full_sequence ''PT_0001'') passing"
          and tok = "''HIPAA_B_20250101000000''" and plan = "full_sequence ''PT_0001''"
          and v = passing and tools = "register_tools demo_tools"
          and q = "''fetch the record''" and clinician = "Some ''DR_0001''"
          and patient = "Some ''PT_0001''" and extra = "Some [(''session_id'', PStr ''S1'')]"
          and w = demo_world]
        C5_post_validation_on_accepted_plan_only[where cfg = config_template
          and env = "demo_env ''HIPAA_A_20250101000000'' [fetch_step ''PT_0001'']
                       (violation ''warning'' (Some (full_sequence ''PT_0001'')))"
          and tok = "''HIPAA_A_20250101000000''" and plan = "[fetch_step ''PT_0001'']"
          and v = "violation ''warning'' (Some (full_sequence ''PT_0001''))"
          and tools = "register_tools demo_tools"
          and q = "''fetch the record''" and clinician = "Some ''DR_0001''"
          and patient = "Some ''PT_0001''" and extra = None and w = demo_world]
  by (simp add: demo_defs)

end
